theory Spec2Isabelle
  imports Main "HOL-Library.Word"
begin

section \<open>CondoSwift: the authentication routes of src/routes/auth.js\<close>

text \<open>
  The theory embeds the router of \<^verbatim>\<open>src/routes/auth.js\<close>: the two in-memory stores
  \<^verbatim>\<open>users\<close> and \<^verbatim>\<open>sessions\<close>, the helper functions and the routes register,
  login, logout and me together with the middleware each route names (\<^verbatim>\<open>authLimiter\<close>,
  \<^verbatim>\<open>validateRegister\<close>, \<^verbatim>\<open>validateLogin\<close>); the route stats, which only counts, is
  left out. A route is a function from the store and the request to a response and the
  new store. Every value a handler obtains from outside the store is
  an argument of its function: each read of the clock (\<^verbatim>\<open>Date.now()\<close>,
  \<^verbatim>\<open>new Date()\<close>) is an argument of its own, and so are the outcome of
  \<^verbatim>\<open>bcrypt.hash\<close> (salted at random) and the code drawn from \<^verbatim>\<open>Math.random\<close>.
  A handler runs to completion on the store it is given: the interleaving of two
  handlers at an \<^verbatim>\<open>await\<close> is not part of the model, and neither is the
  application-level middleware that \<^verbatim>\<open>src/server.js\<close> installs in front of the router.
  Login reads and writes the arrays only after its \<^verbatim>\<open>await\<close>, apart from finding
  the user, whose record is never removed; register checks the email before its
  \<^verbatim>\<open>await\<close> and stores the user after it, and the model places both at one moment.
\<close>

subsection \<open>Strings\<close>

text \<open>
  A JavaScript string is a sequence of UTF-16 code units. The literals of the source
  are transcribed code unit by code unit.
\<close>

type_synonym jsstring = "16 word list"

definition ascii :: "string \<Rightarrow> jsstring" where
  "ascii s = map of_char s"

text \<open>
  \<^verbatim>\<open>str.replace(pattern, replacement)\<close> with a string pattern replaces the first
  occurrence of the pattern, and returns the string as it is when there is none.
\<close>

fun replace_first :: "'a list \<Rightarrow> 'a list \<Rightarrow> 'a list \<Rightarrow> 'a list" where
  "replace_first pat rep [] = (if pat = [] then rep else [])"
| "replace_first pat rep (x # xs) =
     (if take (length pat) (x # xs) = pat then rep @ drop (length pat) (x # xs)
      else x # replace_first pat rep xs)"

subsection \<open>Signed tokens (jsonwebtoken)\<close>

text \<open>
  The payload that \<^verbatim>\<open>jwt.sign\<close> signs: the two keys \<^verbatim>\<open>generateToken\<close> passes
  (\<^verbatim>\<open>userId\<close>, \<^verbatim>\<open>timestamp\<close>) and the registered claims \<^verbatim>\<open>iat\<close> and
  \<^verbatim>\<open>exp\<close> that the library adds. \<^verbatim>\<open>iat\<close> and \<^verbatim>\<open>exp\<close> count seconds,
  \<^verbatim>\<open>timestamp\<close> milliseconds.
\<close>

record jwt_payload =
  jwt_userId :: nat
  timestamp :: int
  iat :: "int option"
  exp :: "int option"

text \<open>
  The library is not part of the repository, so its cryptography is kept symbolic:
  \<open>Jws p k\<close> stands for the whole compact serialization
  \<^verbatim>\<open>header.payload.signature\<close> of the payload \<open>p\<close> under the HMAC key \<open>k\<close>.
  It takes the place of one character in a string of the Authorization header or of
  the session store, next to ordinary code units \<open>Ch c\<close>. The characters inside a
  serialization are not looked at: it has no blank in it, so no occurrence of
  \<^verbatim>\<open>'Bearer '\<close> lies inside one, and an occurrence that would begin in its last
  characters is left out. A string that \<^verbatim>\<open>jwt.verify\<close> accepts under a key is
  exactly a single \<open>Jws\<close> of that key: every other string is malformed or carries a
  wrong signature.
\<close>

datatype sym = Ch "16 word" | Jws jwt_payload jsstring

type_synonym tstring = "sym list"

datatype jwt_error = SignError | JsonWebTokenError | TokenExpiredError

text \<open>
  \<^verbatim>\<open>jwt.sign(payload, secretOrPrivateKey, {expiresIn})\<close>, read at the clock value
  \<open>now\<close> (milliseconds). It throws when the key is undefined or empty and when
  \<^verbatim>\<open>expiresIn\<close> is undefined or no time span; \<open>expiresIn\<close> is the time span in
  milliseconds as the library parses it from the string, \<open>None\<close> when there is none.
  Otherwise it sets \<^verbatim>\<open>iat\<close> to \<^verbatim>\<open>payload.iat || Math.floor(Date.now() / 1000)\<close>, the
  clock in seconds unless the payload has an \<^verbatim>\<open>iat\<close> other than zero, and
  \<^verbatim>\<open>exp\<close> to \<^verbatim>\<open>Math.floor(iat + ms / 1000)\<close>.
\<close>

definition jwt_sign ::
  "jwt_payload \<Rightarrow> jsstring option \<Rightarrow> int option \<Rightarrow> int \<Rightarrow> jwt_error + tstring" where
  "jwt_sign payload secretOrPrivateKey expiresIn now =
     (case secretOrPrivateKey of
        None \<Rightarrow> Inl SignError
      | Some k \<Rightarrow>
          if k = [] then Inl SignError
          else (case expiresIn of
                  None \<Rightarrow> Inl SignError
                | Some ms \<Rightarrow>
                    if exp payload \<noteq> None then Inl SignError
                    else
                      let ts = (case iat payload of
                                  None \<Rightarrow> now div 1000
                                | Some t \<Rightarrow> if t = 0 then now div 1000 else t)
                      in Inr [Jws (payload\<lparr>iat := Some ts, exp := Some (ts + ms div 1000)\<rparr>) k]))"

text \<open>
  \<^verbatim>\<open>jwt.verify(token, secretOrPublicKey)\<close>, read at the clock value \<open>now\<close>
  (milliseconds): the payload, or the error thrown. A token whose \<^verbatim>\<open>exp\<close> is not
  after the clock in seconds is refused with \<^verbatim>\<open>TokenExpiredError\<close>.
\<close>

fun jwt_verify :: "tstring \<Rightarrow> jsstring option \<Rightarrow> int \<Rightarrow> jwt_error + jwt_payload" where
  "jwt_verify [Jws p k] secretOrPublicKey now =
     (case secretOrPublicKey of
        None \<Rightarrow> Inl JsonWebTokenError
      | Some s \<Rightarrow>
          if s = [] \<or> k \<noteq> s then Inl JsonWebTokenError
          else (case exp p of
                  None \<Rightarrow> Inr p
                | Some e \<Rightarrow> if e \<le> now div 1000 then Inl TokenExpiredError else Inr p))"
| "jwt_verify _ _ _ = Inl JsonWebTokenError"

subsection \<open>Configuration\<close>

text \<open>
  The two variables of \<^verbatim>\<open>process.env\<close> the token code reads. \<open>JWT_EXPIRES_IN\<close> holds
  the time span of the variable in milliseconds, \<open>None\<close> when the variable is unset or
  is not a time span.
\<close>

record env =
  JWT_SECRET :: "jsstring option"
  JWT_EXPIRES_IN :: "int option"

text \<open>
  \<^verbatim>\<open>generateToken(userId)\<close> reads the clock twice: \<open>t_payload\<close> is the
  \<^verbatim>\<open>Date.now()\<close> of the payload, \<open>t_sign\<close> the one inside \<^verbatim>\<open>jwt.sign\<close>.
\<close>

definition generateToken :: "env \<Rightarrow> nat \<Rightarrow> int \<Rightarrow> int \<Rightarrow> jwt_error + tstring" where
  "generateToken e userId t_payload t_sign =
     jwt_sign \<lparr>jwt_userId = userId, timestamp = t_payload, iat = None, exp = None\<rparr>
       (JWT_SECRET e) (JWT_EXPIRES_IN e) t_sign"

subsection \<open>JSON values\<close>

text \<open>
  The values of a request body and of a response body. \<open>JTok\<close> is a string that
  may hold a token, \<open>JDate\<close> a date, \<open>JUndefined\<close> a key that is absent.
\<close>

datatype json =
    JNull
  | JBool bool
  | JNum int
  | JStr jsstring
  | JTok tstring
  | JDate int
  | JUndefined
  | JArr "json list"
  | JObj "(string \<times> json) list"

subsection \<open>The stores\<close>

text \<open>
  A request body and a user share their field names in the source, so the records
  extend one another: the body of a login, the body of a registration, a user.
  \<open>password\<close> is the password in a body and the bcrypt hash in a user. No
  validation chain sanitizes the password, so the handlers read it as the JSON value
  the body holds, a string or not; the other fields are strings.
  The field \<^verbatim>\<open>id\<close> of a user is \<open>user_id\<close>; dates are milliseconds since the epoch;
  \<open>lastLogin\<close> is \<open>None\<close> while the field is undefined.
\<close>

record credentials =
  email :: jsstring
  password :: json

record register_body = credentials +
  fullName :: jsstring
  phone :: jsstring
  userType :: jsstring

record user = register_body +
  user_id :: nat
  verified :: bool
  createdAt :: int
  profileComplete :: bool
  lastLogin :: "int option"

record session =
  userId :: nat
  token :: tstring
  session_createdAt :: int
  expiresAt :: int

text \<open>
  The state of the module: the arrays \<^verbatim>\<open>users\<close> and \<^verbatim>\<open>sessions\<close>, and the hit
  counts of the memory store of \<^verbatim>\<open>authLimiter\<close>, one count for each client address.
\<close>

record state =
  users :: "user list"
  sessions :: "session list"
  hits :: "jsstring \<Rightarrow> nat"

definition init :: state where
  "init = \<lparr>users = [], sessions = [], hits = (\<lambda>_. 0)\<rparr>"

subsection \<open>Responses\<close>

record response =
  status :: nat
  body :: json

subsection \<open>String literals of the source\<close>

definition msg_fullName_invalid :: jsstring where
  \<comment> \<open>auth.js line 22: validateRegister, fullName\<close>
  "msg_fullName_invalid =
   [3594, 3639, 3656, 3629, 3605, 3657, 3629, 3591, 3617, 3637, 3629, 3618, 3656, 3634,
    3591, 3609, 3657, 3629, 3618, 32, 50, 32, 3605, 3633, 3623, 3629, 3633, 3585, 3625,
    3619]"

definition msg_phone_invalid :: jsstring where
  \<comment> \<open>auth.js line 23: validateRegister, phone\<close>
  "msg_phone_invalid =
   [3648, 3610, 3629, 3619, 3660, 3650, 3607, 3619, 3624, 3633, 3614, 3607, 3660, 3652,
    3617, 3656, 3606, 3641, 3585, 3605, 3657, 3629, 3591]"

definition msg_email_invalid :: jsstring where
  \<comment> \<open>auth.js line 24: validateRegister, email\<close>
  "msg_email_invalid =
   [3629, 3637, 3648, 3617, 3621, 3652, 3617, 3656, 3606, 3641, 3585, 3605, 3657, 3629,
    3591]"

definition msg_password_short :: jsstring where
  \<comment> \<open>auth.js line 25: validateRegister, password\<close>
  "msg_password_short =
   [3619, 3627, 3633, 3626, 3612, 3656, 3634, 3609, 3605, 3657, 3629, 3591, 3617, 3637,
    3629, 3618, 3656, 3634, 3591, 3609, 3657, 3629, 3618, 32, 56, 32, 3605, 3633, 3623,
    3629, 3633, 3585, 3625, 3619]"

definition userType_owner :: jsstring where
  \<comment> \<open>auth.js line 26: first allowed userType\<close>
  "userType_owner =
   [3648, 3592, 3657, 3634, 3586, 3629, 3591, 3627, 3657, 3629, 3591]"

definition userType_agent :: jsstring where
  \<comment> \<open>auth.js line 26: second allowed userType\<close>
  "userType_agent =
   [3609, 3634, 3618, 3627, 3609, 3657, 3634]"

definition userType_buyer :: jsstring where
  \<comment> \<open>auth.js line 26: third allowed userType\<close>
  "userType_buyer =
   [3612, 3641, 3657, 3595, 3639, 3657, 3629, 47, 3648, 3594, 3656, 3634]"

definition msg_userType_invalid :: jsstring where
  \<comment> \<open>auth.js line 26: validateRegister, userType\<close>
  "msg_userType_invalid =
   [3611, 3619, 3632, 3648, 3616, 3607, 3612, 3641, 3657, 3651, 3594, 3657, 3652, 3617,
    3656, 3606, 3641, 3585, 3605, 3657, 3629, 3591]"

definition msg_login_email_invalid :: jsstring where
  \<comment> \<open>auth.js line 30: validateLogin, email\<close>
  "msg_login_email_invalid =
   [3629, 3637, 3648, 3617, 3621, 3652, 3617, 3656, 3606, 3641, 3585, 3605, 3657, 3629,
    3591]"

definition msg_login_password_empty :: jsstring where
  \<comment> \<open>auth.js line 31: validateLogin, password\<close>
  "msg_login_password_empty =
   [3585, 3619, 3640, 3603, 3634, 3585, 3619, 3629, 3585, 3619, 3627, 3633, 3626, 3612,
    3656, 3634, 3609]"

definition msg_register_invalid :: jsstring where
  \<comment> \<open>auth.js line 57: register, 400\<close>
  "msg_register_invalid =
   [3586, 3657, 3629, 3617, 3641, 3621, 3652, 3617, 3656, 3606, 3641, 3585, 3605, 3657,
    3629, 3591]"

definition msg_register_duplicate :: jsstring where
  \<comment> \<open>auth.js line 68: register, 409\<close>
  "msg_register_duplicate =
   [3629, 3637, 3648, 3617, 3621, 3609, 3637, 3657, 3617, 3637, 3612, 3641, 3657, 3651,
    3594, 3657, 3649, 3621, 3657, 3623]"

definition msg_register_ok :: jsstring where
  \<comment> \<open>auth.js line 108: register, 201\<close>
  "msg_register_ok =
   [3621, 3591, 3607, 3632, 3648, 3610, 3637, 3618, 3609, 3626, 3635, 3648, 3619, 3655,
    3592, 32, 3585, 3619, 3640, 3603, 3634, 3618, 3639, 3609, 3618, 3633, 3609, 3605, 3633,
    3623, 3605, 3609, 3612, 3656, 3634, 3609, 3629, 3637, 3648, 3617, 3621]"

definition msg_register_error :: jsstring where
  \<comment> \<open>auth.js line 117: register, 500\<close>
  "msg_register_error =
   [3648, 3585, 3636, 3604, 3586, 3657, 3629, 3612, 3636, 3604, 3614, 3621, 3634, 3604,
    3651, 3609, 3585, 3634, 3619, 3621, 3591, 3607, 3632, 3648, 3610, 3637, 3618, 3609]"

definition msg_login_invalid :: jsstring where
  \<comment> \<open>auth.js line 129: login, 400\<close>
  "msg_login_invalid =
   [3586, 3657, 3629, 3617, 3641, 3621, 3652, 3617, 3656, 3606, 3641, 3585, 3605, 3657,
    3629, 3591]"

definition msg_login_no_user :: jsstring where
  \<comment> \<open>auth.js line 141: login, 401 when no user has the email\<close>
  "msg_login_no_user =
   [3629, 3637, 3648, 3617, 3621, 3627, 3619, 3639, 3629, 3619, 3627, 3633, 3626, 3612,
    3656, 3634, 3609, 3652, 3617, 3656, 3606, 3641, 3585, 3605, 3657, 3629, 3591]"

definition msg_login_bad_password :: jsstring where
  \<comment> \<open>auth.js line 150: login, 401 when the password does not verify\<close>
  "msg_login_bad_password =
   [3629, 3637, 3648, 3617, 3621, 3627, 3619, 3639, 3629, 3619, 3627, 3633, 3626, 3612,
    3656, 3634, 3609, 3652, 3617, 3656, 3606, 3641, 3585, 3605, 3657, 3629, 3591]"

definition msg_login_ok :: jsstring where
  \<comment> \<open>auth.js line 179: login, 200\<close>
  "msg_login_ok =
   [3648, 3586, 3657, 3634, 3626, 3641, 3656, 3619, 3632, 3610, 3610, 3626, 3635, 3648,
    3619, 3655, 3592]"

definition msg_login_error :: jsstring where
  \<comment> \<open>auth.js line 188: login, 500\<close>
  "msg_login_error =
   [3648, 3585, 3636, 3604, 3586, 3657, 3629, 3612, 3636, 3604, 3614, 3621, 3634, 3604,
    3651, 3609, 3585, 3634, 3619, 3648, 3586, 3657, 3634, 3626, 3641, 3656, 3619, 3632,
    3610, 3610]"

definition msg_logout_ok :: jsstring where
  \<comment> \<open>auth.js line 207: logout, 200\<close>
  "msg_logout_ok =
   [3629, 3629, 3585, 3592, 3634, 3585, 3619, 3632, 3610, 3610, 3626, 3635, 3648, 3619,
    3655, 3592]"

definition msg_me_no_token :: jsstring where
  \<comment> \<open>auth.js line 219: me, 401 without a token\<close>
  "msg_me_no_token =
   [3652, 3617, 3656, 3617, 3637, 32, 116, 111, 107, 101, 110]"

definition msg_me_expired :: jsstring where
  \<comment> \<open>auth.js line 230: me, 401 for a missing or expired session\<close>
  "msg_me_expired =
   [84, 111, 107, 101, 110, 32, 3627, 3617, 3604, 3629, 3634, 3618, 3640]"

definition msg_me_no_user :: jsstring where
  \<comment> \<open>auth.js line 239: me, 404\<close>
  "msg_me_no_user =
   [3652, 3617, 3656, 3614, 3610, 3612, 3641, 3657, 3651, 3594, 3657]"

definition msg_me_invalid :: jsstring where
  \<comment> \<open>auth.js line 264: me, 401 from the catch block\<close>
  "msg_me_invalid =
   [84, 111, 107, 101, 110, 32, 3652, 3617, 3656, 3606, 3641, 3585, 3605, 3657, 3629, 3591]"

definition msg_too_many :: jsstring where
  \<comment> \<open>auth.js line 13: the message of authLimiter\<close>
  "msg_too_many = ascii ''Too many authentication attempts, please try again later.''"

definition bearer_prefix :: tstring where
  \<comment> \<open>auth.js lines 195 and 214: the pattern 'Bearer '\<close>
  "bearer_prefix = map Ch (ascii ''Bearer '')"

subsection \<open>Libraries taken as parameters\<close>

text \<open>
  The functions of express-validator, validator.js and bcryptjs that the routes call
  and whose definitions are outside the repository: \<^verbatim>\<open>toString\<close>, the string that
  express-validator validates in the place of a value that is not a string,
  \<^verbatim>\<open>trim\<close>, \<^verbatim>\<open>isLength({min})\<close>, \<^verbatim>\<open>isEmail\<close>, \<^verbatim>\<open>normalizeEmail\<close>, and the
  verdict of \<^verbatim>\<open>bcrypt.compare(password, hash)\<close> on two strings.
\<close>

record lib =
  toString :: "json \<Rightarrow> jsstring"
  trim :: "jsstring \<Rightarrow> jsstring"
  isLength :: "nat \<Rightarrow> jsstring \<Rightarrow> bool"
  isEmail :: "jsstring \<Rightarrow> bool"
  normalizeEmail :: "jsstring \<Rightarrow> jsstring"
  bcrypt_compare :: "jsstring \<Rightarrow> jsstring \<Rightarrow> bool"

text \<open>
  \<^verbatim>\<open>await bcrypt.compare(s, hash)\<close>: the verdict, or \<open>None\<close> when the promise is
  rejected and the \<^verbatim>\<open>await\<close> throws. bcryptjs rejects the call unless both arguments
  are strings.
\<close>

definition bcrypt_compare_await :: "lib \<Rightarrow> json \<Rightarrow> json \<Rightarrow> bool option" where
  "bcrypt_compare_await L s hash =
     (case s of
        JStr p \<Rightarrow> (case hash of JStr h \<Rightarrow> Some (bcrypt_compare L p h) | _ \<Rightarrow> None)
      | _ \<Rightarrow> None)"

text \<open>
  \<^verbatim>\<open>await bcrypt.hash(s, rounds)\<close>: the hash, or \<open>None\<close> when the \<^verbatim>\<open>await\<close>
  throws. The salt is random, so the hash of a string is an input, \<open>hashed\<close>
  (\<open>None\<close> when bcryptjs fails on the rounds); bcryptjs rejects a value that is not a
  string.
\<close>

definition bcrypt_hash_await :: "json \<Rightarrow> jsstring option \<Rightarrow> jsstring option" where
  "bcrypt_hash_await s hashed = (case s of JStr p \<Rightarrow> hashed | _ \<Rightarrow> None)"

subsection \<open>Validation middleware\<close>

text \<open>One entry of \<^verbatim>\<open>validationResult(req).array()\<close>.\<close>

definition field_error :: "string \<Rightarrow> json \<Rightarrow> jsstring \<Rightarrow> json" where
  "field_error path v msg =
     JObj [(''type'', JStr (ascii ''field'')), (''value'', v), (''msg'', JStr msg),
           (''path'', JStr (ascii path)), (''location'', JStr (ascii ''body''))]"

text \<open>
  A validator of a chain on a value that no sanitizer has made a string. It is run on
  the value, or on each element when the value is an array, and it sees a string as
  it is and any other value as \<^verbatim>\<open>toString\<close> writes it. Each value that fails adds an
  error; the value in the body stays as it is.
\<close>

definition elements :: "json \<Rightarrow> json list" where
  "elements v = (case v of JArr vs \<Rightarrow> vs | _ \<Rightarrow> [v])"

definition stringify :: "lib \<Rightarrow> json \<Rightarrow> jsstring" where
  "stringify L v = (case v of JStr s \<Rightarrow> s | _ \<Rightarrow> toString L v)"

definition validate_field ::
  "lib \<Rightarrow> (jsstring \<Rightarrow> bool) \<Rightarrow> string \<Rightarrow> jsstring \<Rightarrow> json \<Rightarrow> json list" where
  "validate_field L valid path msg v =
     concat (map (\<lambda>x. if valid (stringify L x) then [] else [field_error path x msg])
       (elements v))"

text \<open>The pattern \<^verbatim>\<open>/^0[0-9]{8,9}$/\<close>: a zero, then eight or nine digits.\<close>

definition is_digit :: "16 word \<Rightarrow> bool" where
  "is_digit c = (48 \<le> c \<and> c \<le> 57)"

definition matches_phone :: "jsstring \<Rightarrow> bool" where
  "matches_phone s =
     (case s of
        [] \<Rightarrow> False
      | c # cs \<Rightarrow> c = 48 \<and> (length cs = 8 \<or> length cs = 9) \<and> list_all is_digit cs)"

text \<open>
  A validation chain leaves its sanitized value in \<^verbatim>\<open>req.body\<close> and its errors in
  the request: the functions return the errors, in the order of the chains, and the
  body as the handler then reads it.
\<close>

definition validateRegister :: "lib \<Rightarrow> register_body \<Rightarrow> json list \<times> register_body" where
  "validateRegister L b =
     (let name = trim L (fullName b) in
      ((if isLength L 2 name then []
        else [field_error ''fullName'' (JStr name) msg_fullName_invalid]) @
       (if matches_phone (phone b) then []
        else [field_error ''phone'' (JStr (phone b)) msg_phone_invalid]) @
       (if isEmail L (email b) then []
        else [field_error ''email'' (JStr (email b)) msg_email_invalid]) @
       validate_field L (isLength L 8) ''password'' msg_password_short (password b) @
       (if userType b \<in> set [userType_owner, userType_agent, userType_buyer] then []
        else [field_error ''userType'' (JStr (userType b)) msg_userType_invalid]),
       b\<lparr>fullName := name, email := normalizeEmail L (email b)\<rparr>))"

definition validateLogin :: "lib \<Rightarrow> credentials \<Rightarrow> json list \<times> credentials" where
  "validateLogin L b =
     ((if isEmail L (email b) then []
       else [field_error ''email'' (JStr (email b)) msg_login_email_invalid]) @
      validate_field L (\<lambda>s. s \<noteq> []) ''password'' msg_login_password_empty (password b),
      b\<lparr>email := normalizeEmail L (email b)\<rparr>)"

subsection \<open>Rate limiting middleware\<close>

text \<open>
  \<^verbatim>\<open>authLimiter\<close> (express-rate-limit, memory store, \<^verbatim>\<open>max: 5\<close>): the hit count of
  the client address is incremented, and the request passes when the new count is at
  most five. Register and login share the one limiter. The store forgets every count
  when its window of fifteen minutes ends (\<open>resetAll\<close>).
\<close>

definition authLimiter :: "state \<Rightarrow> jsstring \<Rightarrow> bool \<times> state" where
  "authLimiter st ip =
     (let totalHits = hits st ip + 1
      in (totalHits \<le> 5, st\<lparr>hits := (hits st)(ip := totalHits)\<rparr>))"

definition resetAll :: "state \<Rightarrow> state" where
  "resetAll st = st\<lparr>hits := (\<lambda>_. 0)\<rparr>"

definition too_many :: response where
  "too_many = \<lparr>status = 429, body = JStr msg_too_many\<rparr>"

subsection \<open>Helper functions\<close>

definition findUserByEmail :: "user list \<Rightarrow> jsstring \<Rightarrow> user option" where
  "findUserByEmail us e = find (\<lambda>u. email u = e) us"

text \<open>\<^verbatim>\<open>Array.prototype.findIndex\<close>: the first index, \<open>None\<close> for \<^verbatim>\<open>-1\<close>.\<close>

fun findIndex :: "('a \<Rightarrow> bool) \<Rightarrow> 'a list \<Rightarrow> nat option" where
  "findIndex P [] = None"
| "findIndex P (x # xs) = (if P x then Some 0 else map_option Suc (findIndex P xs))"

text \<open>\<^verbatim>\<open>array.splice(i, 1)\<close> removes the element at index \<open>i\<close>.\<close>

definition splice1 :: "nat \<Rightarrow> 'a list \<Rightarrow> 'a list" where
  "splice1 i xs = take i xs @ drop (Suc i) xs"

text \<open>
  \<^verbatim>\<open>find\<close> returns a reference into the array, and the assignment to
  \<^verbatim>\<open>user.lastLogin\<close> changes the element found: the first one that matches.
\<close>

fun update_first :: "('a \<Rightarrow> bool) \<Rightarrow> ('a \<Rightarrow> 'a) \<Rightarrow> 'a list \<Rightarrow> 'a list" where
  "update_first P f [] = []"
| "update_first P f (x # xs) = (if P x then f x # xs else x # update_first P f xs)"

text \<open>The object \<^verbatim>\<open>userResponse\<close> of register and login.\<close>

definition userResponse :: "user \<Rightarrow> json" where
  "userResponse u =
     JObj [(''id'', JNum (int (user_id u))), (''fullName'', JStr (fullName u)),
           (''email'', JStr (email u)), (''userType'', JStr (userType u)),
           (''verified'', JBool (verified u)),
           (''profileComplete'', JBool (profileComplete u))]"

text \<open>The object \<^verbatim>\<open>userResponse\<close> of \<^verbatim>\<open>GET /me\<close>.\<close>

definition meResponse :: "user \<Rightarrow> json" where
  "meResponse u =
     JObj [(''id'', JNum (int (user_id u))), (''fullName'', JStr (fullName u)),
           (''email'', JStr (email u)), (''phone'', JStr (phone u)),
           (''userType'', JStr (userType u)), (''verified'', JBool (verified u)),
           (''profileComplete'', JBool (profileComplete u)),
           (''createdAt'', JDate (createdAt u)),
           (''lastLogin'', (case lastLogin u of None \<Rightarrow> JUndefined | Some t \<Rightarrow> JDate t))]"

definition failure :: "nat \<Rightarrow> jsstring \<Rightarrow> response" where
  "failure code msg =
     \<lparr>status = code, body = JObj [(''success'', JBool False), (''message'', JStr msg)]\<rparr>"

subsection \<open>POST /register\<close>

text \<open>
  \<open>hashedPassword\<close> is what \<^verbatim>\<open>bcrypt.hash(password, rounds)\<close> makes of a string
  password, \<open>None\<close> when it fails. \<open>now\<close> is the clock of
  \<^verbatim>\<open>createdAt\<close>, \<open>verificationCode\<close> the code drawn from \<^verbatim>\<open>Math.random\<close>.
\<close>

definition register ::
  "lib \<Rightarrow> state \<Rightarrow> jsstring \<Rightarrow> register_body \<Rightarrow> jsstring option \<Rightarrow> int \<Rightarrow> jsstring
     \<Rightarrow> response \<times> state" where
  "register L st ip reqBody hashedPassword now verificationCode =
     (let (allowed, st1) = authLimiter st ip in
      if \<not> allowed then (too_many, st1)
      else
        let (errors, b) = validateRegister L reqBody in
        if errors \<noteq> [] then
          (\<lparr>status = 400,
            body = JObj [(''success'', JBool False), (''message'', JStr msg_register_invalid),
                         (''errors'', JArr errors)]\<rparr>, st1)
        else if findUserByEmail (users st1) (email b) \<noteq> None then
          (failure 409 msg_register_duplicate, st1)
        else
          (case bcrypt_hash_await (password b) hashedPassword of
             None \<Rightarrow> (failure 500 msg_register_error, st1)
           | Some h \<Rightarrow>
               let newUser =
                 \<lparr>email = email b, password = JStr h, fullName = fullName b, phone = phone b,
                  userType = userType b, user_id = length (users st1) + 1,
                  verified = False, createdAt = now, profileComplete = False,
                  lastLogin = None\<rparr>
               in (\<lparr>status = 201,
                    body = JObj [(''success'', JBool True), (''message'', JStr msg_register_ok),
                                 (''user'', userResponse newUser),
                                 (''verificationCode'', JStr verificationCode)]\<rparr>,
                   st1\<lparr>users := users st1 @ [newUser]\<rparr>)))"

subsection \<open>POST /login\<close>

text \<open>
  The \<^verbatim>\<open>try\<close> block has two calls that can throw, \<^verbatim>\<open>bcrypt.compare\<close> and
  \<^verbatim>\<open>generateToken\<close>; both come before the first write, and the \<^verbatim>\<open>catch\<close> block
  answers 500.
  The five reads of the clock of a successful login, in the order of the source:
  \<^verbatim>\<open>Date.now()\<close> in the payload of the token, the clock inside \<^verbatim>\<open>jwt.sign\<close>,
  \<^verbatim>\<open>new Date()\<close> for \<^verbatim>\<open>lastLogin\<close>, \<^verbatim>\<open>new Date()\<close> for \<^verbatim>\<open>createdAt\<close> and
  \<^verbatim>\<open>Date.now()\<close> for \<^verbatim>\<open>expiresAt\<close>.
\<close>

record login_clock =
  t_payload :: int
  t_sign :: int
  t_lastLogin :: int
  t_createdAt :: int
  t_expiresAt :: int

definition seven_days :: int where
  "seven_days = 7 * 24 * 60 * 60 * 1000"

definition login ::
  "lib \<Rightarrow> env \<Rightarrow> state \<Rightarrow> jsstring \<Rightarrow> credentials \<Rightarrow> login_clock \<Rightarrow> response \<times> state" where
  "login L e st ip reqBody clk =
     (let (allowed, st1) = authLimiter st ip in
      if \<not> allowed then (too_many, st1)
      else
        let (errors, b) = validateLogin L reqBody in
        if errors \<noteq> [] then
          (\<lparr>status = 400,
            body = JObj [(''success'', JBool False), (''message'', JStr msg_login_invalid),
                         (''errors'', JArr errors)]\<rparr>, st1)
        else
          (case findUserByEmail (users st1) (email b) of
             None \<Rightarrow> (failure 401 msg_login_no_user, st1)
           | Some u \<Rightarrow>
               (case bcrypt_compare_await L (password b) (password u) of
                  None \<Rightarrow> (failure 500 msg_login_error, st1)
                | Some isValidPassword \<Rightarrow>
                    if \<not> isValidPassword then (failure 401 msg_login_bad_password, st1)
                    else
                      (case generateToken e (user_id u) (t_payload clk) (t_sign clk) of
                         Inl err \<Rightarrow> (failure 500 msg_login_error, st1)
                       | Inr tok \<Rightarrow>
                           (\<lparr>status = 200,
                             body =
                               JObj [(''success'', JBool True), (''message'', JStr msg_login_ok),
                                     (''token'', JTok tok),
                                     (''user'',
                                      userResponse (u\<lparr>lastLogin := Some (t_lastLogin clk)\<rparr>))]\<rparr>,
                            st1\<lparr>users :=
                                  update_first (\<lambda>v. email v = email b)
                                    (\<lambda>v. v\<lparr>lastLogin := Some (t_lastLogin clk)\<rparr>) (users st1),
                                sessions :=
                                  sessions st1 @
                                    [\<lparr>userId = user_id u, token = tok,
                                      session_createdAt = t_createdAt clk,
                                      expiresAt = t_expiresAt clk + seven_days\<rparr>]\<rparr>)))))"

subsection \<open>POST /logout\<close>

text \<open>
  \<open>authorization\<close> is \<^verbatim>\<open>req.headers.authorization\<close>, \<open>None\<close> when the header is
  absent. The empty string is falsy, like \<^verbatim>\<open>undefined\<close>.
\<close>

definition bearer :: "tstring option \<Rightarrow> tstring option" where
  "bearer authorization = map_option (replace_first bearer_prefix []) authorization"

definition logout :: "state \<Rightarrow> tstring option \<Rightarrow> response \<times> state" where
  "logout st authorization =
     (\<lparr>status = 200, body = JObj [(''success'', JBool True), (''message'', JStr msg_logout_ok)]\<rparr>,
      (case bearer authorization of
         None \<Rightarrow> st
       | Some tok \<Rightarrow>
           if tok = [] then st
           else (case findIndex (\<lambda>s. token s = tok) (sessions st) of
                   None \<Rightarrow> st
                 | Some sessionIndex \<Rightarrow>
                     st\<lparr>sessions := splice1 sessionIndex (sessions st)\<rparr>)))"

subsection \<open>GET /me\<close>

text \<open>
  \<open>t_verify\<close> is the clock inside \<^verbatim>\<open>jwt.verify\<close>, \<open>now\<close> the \<^verbatim>\<open>new Date()\<close>
  that the expiry of the session is compared with. The route changes no store.
\<close>

definition me :: "env \<Rightarrow> state \<Rightarrow> tstring option \<Rightarrow> int \<Rightarrow> int \<Rightarrow> response" where
  "me e st authorization t_verify now =
     (case bearer authorization of
        None \<Rightarrow> failure 401 msg_me_no_token
      | Some tok \<Rightarrow>
          if tok = [] then failure 401 msg_me_no_token
          else
            (case jwt_verify tok (JWT_SECRET e) t_verify of
               Inl err \<Rightarrow> failure 401 msg_me_invalid
             | Inr decoded \<Rightarrow>
                 (case find (\<lambda>s. token s = tok) (sessions st) of
                    None \<Rightarrow> failure 401 msg_me_expired
                  | Some s \<Rightarrow>
                      if expiresAt s < now then failure 401 msg_me_expired
                      else
                        (case find (\<lambda>u. user_id u = jwt_userId decoded) (users st) of
                           None \<Rightarrow> failure 404 msg_me_no_user
                         | Some u \<Rightarrow>
                             \<lparr>status = 200,
                              body = JObj [(''success'', JBool True),
                                           (''user'', meResponse u)]\<rparr>))))"

subsection \<open>Runs\<close>

text \<open>
  The requests that change the state, each with the values its handler reads from
  outside, and the end of a window of the limiter.
\<close>

datatype event =
    Register jsstring register_body "jsstring option" int jsstring
  | Login jsstring credentials login_clock
  | Logout "tstring option"
  | WindowReset

fun step :: "lib \<Rightarrow> env \<Rightarrow> state \<Rightarrow> event \<Rightarrow> state" where
  "step L e st (Register ip b h now code) = snd (register L st ip b h now code)"
| "step L e st (Login ip b clk) = snd (login L e st ip b clk)"
| "step L e st (Logout authorization) = snd (logout st authorization)"
| "step L e st WindowReset = resetAll st"

definition run :: "lib \<Rightarrow> env \<Rightarrow> state \<Rightarrow> event list \<Rightarrow> state" where
  "run L e st evs = foldl (step L e) st evs"

subsection \<open>Predicates of the properties\<close>

text \<open>
  A login request is well formed when the limiter lets it pass and the validation
  chains report no error. It then fails on the credentials when no user has the
  normalized email, when \<^verbatim>\<open>bcrypt.compare\<close> returns false for the password and the
  hash of the user found, and when \<^verbatim>\<open>bcrypt.compare\<close> rejects the two.
\<close>

definition login_well_formed :: "lib \<Rightarrow> state \<Rightarrow> jsstring \<Rightarrow> credentials \<Rightarrow> bool" where
  "login_well_formed L st ip b = (fst (authLimiter st ip) \<and> fst (validateLogin L b) = [])"

definition no_such_email :: "lib \<Rightarrow> state \<Rightarrow> credentials \<Rightarrow> bool" where
  "no_such_email L st b = (findUserByEmail (users st) (normalizeEmail L (email b)) = None)"

definition wrong_password :: "lib \<Rightarrow> state \<Rightarrow> credentials \<Rightarrow> bool" where
  "wrong_password L st b =
     (case findUserByEmail (users st) (normalizeEmail L (email b)) of
        None \<Rightarrow> False
      | Some u \<Rightarrow> bcrypt_compare_await L (password b) (password u) = Some False)"

definition compare_rejected :: "lib \<Rightarrow> state \<Rightarrow> credentials \<Rightarrow> bool" where
  "compare_rejected L st b =
     (case findUserByEmail (users st) (normalizeEmail L (email b)) of
        None \<Rightarrow> False
      | Some u \<Rightarrow> bcrypt_compare_await L (password b) (password u) = None)"


text \<open>The clocks of the login requests of a run.\<close>

fun login_clocks :: "event list \<Rightarrow> login_clock list" where
  "login_clocks [] = []"
| "login_clocks (Login ip b clk # evs) = clk # login_clocks evs"
| "login_clocks (ev # evs) = login_clocks evs"

text \<open>
  A session record as the login with the clock \<open>clk\<close> stores it: \<open>createdAt\<close> is
  the fourth read of the clock, \<open>expiresAt\<close> the fifth read plus seven days.
\<close>

definition stored_by :: "login_clock \<Rightarrow> session \<Rightarrow> bool" where
  "stored_by clk s =
     (session_createdAt s = t_createdAt clk \<and> expiresAt s = t_expiresAt clk + seven_days)"

text \<open>
  What tells two tokens of one configuration apart: the \<open>userId\<close>, the
  \<open>timestamp\<close> and the \<open>iat\<close> of the payload. A login that succeeds issues a token
  with the key of the user found and of its first two reads of the clock;
  \<open>issued\<close> lists the keys of the logins that succeed in a run from a state.
\<close>

fun token_key :: "tstring \<Rightarrow> (nat \<times> int \<times> int option) option" where
  "token_key [Jws p k] = Some (jwt_userId p, timestamp p, iat p)"
| "token_key _ = None"

definition login_issue ::
  "lib \<Rightarrow> env \<Rightarrow> state \<Rightarrow> event \<Rightarrow> (nat \<times> int \<times> int option) list" where
  "login_issue L e st ev =
     (case ev of
        Login ip b clk \<Rightarrow>
          (case findUserByEmail (users st) (normalizeEmail L (email b)) of
             None \<Rightarrow> []
           | Some u \<Rightarrow>
               if status (fst (login L e st ip b clk)) = 200
               then [(user_id u, t_payload clk, Some (t_sign clk div 1000))]
               else [])
      | _ \<Rightarrow> [])"

fun issued :: "lib \<Rightarrow> env \<Rightarrow> state \<Rightarrow> event list \<Rightarrow> (nat \<times> int \<times> int option) list" where
  "issued L e st [] = []"
| "issued L e st (ev # evs) = login_issue L e st ev @ issued L e (step L e st ev) evs"

subsection \<open>Concrete inputs\<close>

text \<open>
  A toy instance of the library parameters and a configuration, for evaluating the
  routes on concrete requests: \<open>toString\<close> writes the number 12345678 in digits and
  every other value as an object, \<open>trim\<close> is the identity, \<open>isLength\<close> counts code
  units, an email needs an \<^verbatim>\<open>@\<close>, normalization lowers the letters A to Z, and a
  hash is the password behind a dollar sign.
\<close>

definition lower :: "16 word \<Rightarrow> 16 word" where
  "lower c = (if 65 \<le> c \<and> c \<le> 90 then c + 32 else c)"

definition lib0 :: lib where
  "lib0 = \<lparr>toString = (\<lambda>v. if v = JNum 12345678 then ascii ''12345678''
                            else ascii ''[object Object]''),
           trim = (\<lambda>s. s), isLength = (\<lambda>n s. n \<le> length s), isEmail = (\<lambda>s. 64 \<in> set s),
           normalizeEmail = map lower, bcrypt_compare = (\<lambda>p h. h = 36 # p)\<rparr>"

definition env0 :: env where
  "env0 = \<lparr>JWT_SECRET = Some (ascii ''secret''), JWT_EXPIRES_IN = Some 3600000\<rparr>"

definition env30 :: env where
  \<comment> \<open>a configuration whose tokens live thirty days, longer than a session\<close>
  "env30 = \<lparr>JWT_SECRET = Some (ascii ''secret''), JWT_EXPIRES_IN = Some 2592000000\<rparr>"

definition ip0 :: jsstring where
  "ip0 = ascii ''10.0.0.1''"

definition somchai :: register_body where
  "somchai = \<lparr>email = ascii ''a@b.com'', password = JStr (ascii ''longenough1''),
              fullName = ascii ''Somchai'', phone = ascii ''0812345678'',
              userType = userType_buyer\<rparr>"

definition somchai_upper :: register_body where
  "somchai_upper = somchai\<lparr>email := ascii ''A@B.com''\<rparr>"

definition short_password :: register_body where
  "short_password = somchai\<lparr>password := JStr (ascii ''short'')\<rparr>"

definition somchai_login :: credentials where
  "somchai_login = \<lparr>email = ascii ''a@b.com'', password = JStr (ascii ''longenough1'')\<rparr>"

definition wrong_login :: credentials where
  "wrong_login = \<lparr>email = ascii ''a@b.com'', password = JStr (ascii ''wrongpassword'')\<rparr>"

definition number_login :: credentials where
  \<comment> \<open>the body \<^verbatim>\<open>{"email": "a@b.com", "password": 12345678}\<close>, the email of a user\<close>
  "number_login = \<lparr>email = ascii ''a@b.com'', password = JNum 12345678\<rparr>"

definition unknown_number_login :: credentials where
  \<comment> \<open>the body \<^verbatim>\<open>{"email": "x@b.com", "password": 12345678}\<close>, the email of no user\<close>
  "unknown_number_login = \<lparr>email = ascii ''x@b.com'', password = JNum 12345678\<rparr>"

definition unknown_login :: credentials where
  "unknown_login = \<lparr>email = ascii ''x@b.com'', password = JStr (ascii ''longenough1'')\<rparr>"

definition register0 :: event where
  "register0 = Register ip0 somchai (Some (36 # ascii ''longenough1'')) 500 (ascii ''X1Y2Z3'')"

definition clock0 :: login_clock where
  "clock0 = \<lparr>t_payload = 1000, t_sign = 1000, t_lastLogin = 1000, t_createdAt = 1000,
             t_expiresAt = 1000\<rparr>"

definition clock1 :: login_clock where
  \<comment> \<open>a login one millisecond after \<open>clock0\<close>\<close>
  "clock1 = \<lparr>t_payload = 1001, t_sign = 1001, t_lastLogin = 1001, t_createdAt = 1001,
             t_expiresAt = 1001\<rparr>"

definition clock_tick :: login_clock where
  \<comment> \<open>a login during which the clock moves on by one millisecond before the last read\<close>
  "clock_tick = clock0\<lparr>t_expiresAt := 1001\<rparr>"

definition token0 :: tstring where
  "token0 = [Jws \<lparr>jwt_userId = 1, timestamp = 1000, iat = Some 1, exp = Some 3601\<rparr>
               (ascii ''secret'')]"

definition token1 :: tstring where
  "token1 = [Jws \<lparr>jwt_userId = 1, timestamp = 1001, iat = Some 1, exp = Some 3601\<rparr>
               (ascii ''secret'')]"

definition token30 :: tstring where
  "token30 = [Jws \<lparr>jwt_userId = 1, timestamp = 1000, iat = Some 1, exp = Some 2592001\<rparr>
                (ascii ''secret'')]"

definition header0 :: "tstring option" where
  \<comment> \<open>the header \<^verbatim>\<open>Authorization: Bearer <token0>\<close>\<close>
  "header0 = Some (bearer_prefix @ token0)"

definition header30 :: "tstring option" where
  "header30 = Some (bearer_prefix @ token30)"

definition unknown_header :: "tstring option" where
  \<comment> \<open>the header \<^verbatim>\<open>Authorization: Bearer abc\<close>\<close>
  "unknown_header = Some (bearer_prefix @ map Ch (ascii ''abc''))"

definition session0 :: session where
  "session0 = \<lparr>userId = 1, token = token0, session_createdAt = 1000,
               expiresAt = 1000 + seven_days\<rparr>"

definition session1 :: session where
  "session1 = \<lparr>userId = 1, token = token1, session_createdAt = 1001,
               expiresAt = 1001 + seven_days\<rparr>"

definition session_tick :: session where
  "session_tick = \<lparr>userId = 1, token = token0, session_createdAt = 1000,
                   expiresAt = 1001 + seven_days\<rparr>"

definition session30 :: session where
  "session30 = \<lparr>userId = 1, token = token30, session_createdAt = 1000,
                expiresAt = 1000 + seven_days\<rparr>"

definition user0 :: user where
  "user0 = \<lparr>email = ascii ''a@b.com'', password = JStr (36 # ascii ''longenough1''),
            fullName = ascii ''Somchai'', phone = ascii ''0812345678'',
            userType = userType_buyer, user_id = 1, verified = False, createdAt = 500,
            profileComplete = False, lastLogin = None\<rparr>"

definition state1 :: state where
  \<comment> \<open>the state after \<open>register0\<close>\<close>
  "state1 = \<lparr>users = [user0], sessions = [], hits = (\<lambda>_. 0)(ip0 := Suc 0)\<rparr>"

definition state2 :: state where
  \<comment> \<open>the state after \<open>register0\<close> and a login at \<open>clock0\<close>\<close>
  "state2 = \<lparr>users = [user0\<lparr>lastLogin := Some 1000\<rparr>], sessions = [session0],
             hits = (\<lambda>_. 0)(ip0 := Suc (Suc 0))\<rparr>"

definition state3 :: state where
  \<comment> \<open>the state after \<open>register0\<close> and two logins at \<open>clock0\<close>\<close>
  "state3 = \<lparr>users = [user0\<lparr>lastLogin := Some 1000\<rparr>], sessions = [session0, session0],
             hits = (\<lambda>_. 0)(ip0 := Suc (Suc (Suc 0)))\<rparr>"

definition state30 :: state where
  \<comment> \<open>the state after \<open>register0\<close> and a login at \<open>clock0\<close> under \<open>env30\<close>\<close>
  "state30 = \<lparr>users = [user0\<lparr>lastLogin := Some 1000\<rparr>], sessions = [session30],
              hits = (\<lambda>_. 0)(ip0 := Suc (Suc 0))\<rparr>"

definition state_limited :: state where
  \<comment> \<open>\<open>state1\<close> after five requests of the client in the window\<close>
  "state_limited = state1\<lparr>hits := (\<lambda>_. 0)(ip0 := 5)\<rparr>"

section \<open>Properties\<close>

lemmas fixture_defs = lib0_def env0_def ip0_def somchai_def somchai_upper_def somchai_login_def
  clock0_def token0_def session0_def user0_def register0_def header0_def lower_def ascii_def
  short_password_def wrong_login_def unknown_login_def number_login_def
  unknown_number_login_def env30_def token30_def session30_def
  header30_def unknown_header_def clock_tick_def clock1_def token1_def session1_def
  session_tick_def

lemmas route_defs = register_def login_def logout_def me_def authLimiter_def
  validateRegister_def validateLogin_def validate_field_def elements_def stringify_def
  bcrypt_compare_await_def bcrypt_hash_await_def findUserByEmail_def generateToken_def
  jwt_sign_def bearer_def matches_phone_def is_digit_def run_def init_def Let_def

subsection \<open>Validators and bcrypt on strings\<close>

lemma validate_field_JStr [simp]:
  "validate_field L valid path msg (JStr s) =
     (if valid s then [] else [field_error path (JStr s) msg])"
  by (simp add: validate_field_def elements_def stringify_def)

lemma bcrypt_compare_await_JStr [simp]:
  "bcrypt_compare_await L (JStr p) (JStr h) = Some (bcrypt_compare L p h)"
  by (simp add: bcrypt_compare_await_def)

lemma bcrypt_hash_await_JStr [simp]: "bcrypt_hash_await (JStr p) hashed = hashed"
  by (simp add: bcrypt_hash_await_def)

subsection \<open>What generateToken signs\<close>

lemma generateToken_ok:
  assumes "JWT_SECRET e = Some k" and "k \<noteq> []" and "JWT_EXPIRES_IN e = Some ms"
  shows "generateToken e uid t1 t2 =
    Inr [Jws \<lparr>jwt_userId = uid, timestamp = t1, iat = Some (t2 div 1000),
              exp = Some (t2 div 1000 + ms div 1000)\<rparr> k]"
  using assms by (simp add: generateToken_def jwt_sign_def Let_def)

lemma generateToken_Inr:
  assumes "generateToken e uid t1 t2 = Inr tok"
  shows "\<exists>k ms. JWT_SECRET e = Some k \<and> k \<noteq> [] \<and> JWT_EXPIRES_IN e = Some ms \<and>
    tok = [Jws \<lparr>jwt_userId = uid, timestamp = t1, iat = Some (t2 div 1000),
              exp = Some (t2 div 1000 + ms div 1000)\<rparr> k]"
  using assms
  by (auto simp: generateToken_def jwt_sign_def Let_def split: option.splits if_splits)

subsection \<open>The middleware and the stores\<close>

lemma authLimiter_stores [simp]:
  "users (snd (authLimiter st ip)) = users st"
  "sessions (snd (authLimiter st ip)) = sessions st"
  by (simp_all add: authLimiter_def Let_def)

lemma validateLogin_body [simp]:
  "email (snd (validateLogin L b)) = normalizeEmail L (email b)"
  "password (snd (validateLogin L b)) = password b"
  by (simp_all add: validateLogin_def)

lemma validateRegister_body [simp]:
  "email (snd (validateRegister L b)) = normalizeEmail L (email b)"
  "password (snd (validateRegister L b)) = password b"
  by (simp_all add: validateRegister_def Let_def)

subsection \<open>Searching the arrays\<close>

lemma findIndex_SomeD:
  "findIndex P xs = Some i \<Longrightarrow> i < length xs \<and> P (xs ! i) \<and> (\<forall>j<i. \<not> P (xs ! j))"
proof (induction xs arbitrary: i)
  case Nil
  then show ?case by simp
next
  case (Cons x xs)
  show ?case
  proof (cases "P x")
    case True
    with Cons.prems show ?thesis by simp
  next
    case False
    with Cons.prems obtain k where k: "findIndex P xs = Some k" "i = Suc k"
      by auto
    from Cons.IH [OF k(1)] False k(2) show ?thesis
      by (auto simp: nth_Cons split: nat.splits)
  qed
qed

lemma findIndex_None: "findIndex P xs = None \<longleftrightarrow> (\<forall>x\<in>set xs. \<not> P x)"
  by (induction xs) auto

lemma logout_users [simp]: "users (snd (logout st hdr)) = users st"
  by (simp add: logout_def split: option.splits)

lemma logout_hits [simp]: "hits (snd (logout st hdr)) = hits st"
  by (simp add: logout_def split: option.splits)

subsection \<open>GET /me with a token\<close>

lemma me_with_token:
  assumes "bearer hdr = Some tok" and "tok \<noteq> []"
  shows "me e st hdr t_verify now =
     (case jwt_verify tok (JWT_SECRET e) t_verify of
        Inl err \<Rightarrow> failure 401 msg_me_invalid
      | Inr decoded \<Rightarrow>
          (case find (\<lambda>s. token s = tok) (sessions st) of
             None \<Rightarrow> failure 401 msg_me_expired
           | Some s \<Rightarrow>
               if expiresAt s < now then failure 401 msg_me_expired
               else
                 (case find (\<lambda>u. user_id u = jwt_userId decoded) (users st) of
                    None \<Rightarrow> failure 404 msg_me_no_user
                  | Some u \<Rightarrow>
                      \<lparr>status = 200,
                       body = JObj [(''success'', JBool True), (''user'', meResponse u)]\<rparr>)))"
  using assms by (simp add: me_def)

lemma me_messages_differ: "msg_me_invalid \<noteq> msg_me_expired"
  by (simp add: msg_me_invalid_def msg_me_expired_def)

subsection \<open>Removing a session\<close>

lemma splice1_Cons [simp]:
  "splice1 0 (x # xs) = xs"
  "splice1 (Suc i) (x # xs) = x # splice1 i xs"
  by (simp_all add: splice1_def)

lemma filter_splice1:
  "findIndex P xs = Some i \<Longrightarrow> length (filter P (splice1 i xs)) + 1 = length (filter P xs)"
proof (induction xs arbitrary: i)
  case Nil
  then show ?case by simp
next
  case (Cons x xs)
  show ?case
  proof (cases "P x")
    case True
    with Cons.prems show ?thesis by simp
  next
    case False
    with Cons.prems obtain k where k: "findIndex P xs = Some k" "i = Suc k"
      by auto
    from Cons.IH [OF k(1)] False k(2) show ?thesis by simp
  qed
qed

lemma length_splice1: "i < length xs \<Longrightarrow> Suc (length (splice1 i xs)) = length xs"
  by (simp add: splice1_def)

lemma find_filter_empty: "filter P xs = [] \<Longrightarrow> find P xs = None"
  by (induction xs) (auto split: if_splits)

lemma logout_no_match:
  assumes "bearer hdr = None \<or> bearer hdr = Some [] \<or>
    (\<exists>tok. bearer hdr = Some tok \<and> tok \<notin> token ` set (sessions st))"
  shows "snd (logout st hdr) = st"
proof -
  have "findIndex (\<lambda>s. token s = tok) (sessions st) = None"
    if "tok \<notin> token ` set (sessions st)" for tok
    using that by (auto simp: findIndex_None)
  with assms show ?thesis
    by (auto simp: logout_def split: option.splits)
qed

lemma logout_match:
  assumes "bearer hdr = Some tok" and "tok \<noteq> []" and "tok \<in> token ` set (sessions st)"
  shows "length (sessions (snd (logout st hdr))) + 1 = length (sessions st) \<and>
    length (filter (\<lambda>s. token s = tok) (sessions (snd (logout st hdr)))) + 1 =
      length (filter (\<lambda>s. token s = tok) (sessions st))"
proof -
  from assms(3) have "findIndex (\<lambda>s. token s = tok) (sessions st) \<noteq> None"
    by (auto simp: findIndex_None)
  then obtain i where i: "findIndex (\<lambda>s. token s = tok) (sessions st) = Some i"
    by auto
  with assms(1,2) have s: "sessions (snd (logout st hdr)) = splice1 i (sessions st)"
    by (simp add: logout_def)
  from findIndex_SomeD [OF i] have "i < length (sessions st)"
    by simp
  with s filter_splice1 [OF i] show ?thesis
    by (simp add: length_splice1)
qed

subsection \<open>Runs and the array of sessions\<close>

lemma run_snoc: "run L e st (evs @ [ev]) = step L e (run L e st evs) ev"
  by (simp add: run_def)

lemma run_Nil: "run L e st [] = st"
  by (simp add: run_def)

lemma login_clocks_append: "login_clocks (xs @ ys) = login_clocks xs @ login_clocks ys"
  by (induction xs rule: login_clocks.induct) simp_all

text \<open>What one request does to the array of sessions.\<close>

lemma register_sessions [simp]: "sessions (snd (register L st ip b h now code)) = sessions st"
  by (simp add: register_def Let_def case_prod_beta split: option.splits)

lemma login_sessions:
  "sessions (snd (login L e st ip b clk)) = sessions st \<or>
   (\<exists>uid tok. generateToken e uid (t_payload clk) (t_sign clk) = Inr tok \<and>
      sessions (snd (login L e st ip b clk)) =
        sessions st @ [\<lparr>userId = uid, token = tok, session_createdAt = t_createdAt clk,
                        expiresAt = t_expiresAt clk + seven_days\<rparr>])"
  by (auto simp: login_def Let_def case_prod_beta split: option.splits sum.splits)

lemma logout_sessions:
  "sessions (snd (logout st hdr)) = sessions st \<or>
   (\<exists>i. sessions (snd (logout st hdr)) = splice1 i (sessions st))"
  by (auto simp: logout_def split: option.splits)

lemma set_splice1: "x \<in> set (splice1 i xs) \<Longrightarrow> x \<in> set xs"
  by (auto simp: splice1_def dest: in_set_takeD in_set_dropD)

lemma distinct_map_splice1:
  assumes "distinct (map f xs)"
  shows "distinct (map f (splice1 i xs))"
proof -
  have "map f (splice1 i xs) = take i (map f xs) @ drop (Suc i) (map f xs)"
    by (simp add: splice1_def take_map drop_map)
  moreover have "set (take i (map f xs)) \<inter> set (drop (Suc i) (map f xs)) = {}"
    using assms by (intro set_take_disj_set_drop_if_distinct) simp_all
  ultimately show ?thesis
    using assms by (simp add: distinct_append distinct_take distinct_drop del: take_map drop_map)
qed

lemma step_sessions_origin:
  assumes "\<forall>s\<in>set (sessions st). \<exists>clk\<in>C. stored_by clk s"
  shows "\<forall>s\<in>set (sessions (step L e st ev)). \<exists>clk\<in>C \<union> set (login_clocks [ev]). stored_by clk s"
proof (cases ev)
  case (Register ip b h now code)
  with assms show ?thesis by simp
next
  case (Login ip b clk)
  from login_sessions [of L e st ip b clk] show ?thesis
  proof
    assume "sessions (snd (login L e st ip b clk)) = sessions st"
    with assms Login show ?thesis by auto
  next
    assume "\<exists>uid tok. generateToken e uid (t_payload clk) (t_sign clk) = Inr tok \<and>
      sessions (snd (login L e st ip b clk)) =
        sessions st @ [\<lparr>userId = uid, token = tok, session_createdAt = t_createdAt clk,
                        expiresAt = t_expiresAt clk + seven_days\<rparr>]"
    then obtain uid tok where g: "generateToken e uid (t_payload clk) (t_sign clk) = Inr tok"
      and s: "sessions (snd (login L e st ip b clk)) =
        sessions st @ [\<lparr>userId = uid, token = tok, session_createdAt = t_createdAt clk,
                        expiresAt = t_expiresAt clk + seven_days\<rparr>]"
      by blast
    from assms Login s show ?thesis
      by (auto simp: stored_by_def)
  qed
next
  case (Logout hdr)
  have "set (sessions (snd (logout st hdr))) \<subseteq> set (sessions st)"
    using logout_sessions [of st hdr] by (auto dest: set_splice1)
  with assms Logout show ?thesis by auto
next
  case WindowReset
  with assms show ?thesis by (simp add: resetAll_def)
qed

lemma run_sessions_origin:
  "\<forall>s\<in>set (sessions (run L e init evs)). \<exists>clk\<in>set (login_clocks evs). stored_by clk s"
proof (induction evs rule: rev_induct)
  case Nil
  show ?case by (simp add: run_Nil init_def)
next
  case (snoc ev evs)
  from step_sessions_origin [OF snoc.IH, of L e ev]
  show ?case by (simp add: run_snoc login_clocks_append Un_commute)
qed

text \<open>The tokens of a run and the keys it has issued.\<close>

lemma issued_snoc:
  "issued L e st (evs @ [ev]) = issued L e st evs @ login_issue L e (run L e st evs) ev"
  by (induction evs arbitrary: st) (simp_all add: run_def)

lemma login_outcome:
  "(status (fst (login L e st ip b clk)) \<noteq> 200 \<and>
      sessions (snd (login L e st ip b clk)) = sessions st) \<or>
   (\<exists>u tok. findUserByEmail (users st) (normalizeEmail L (email b)) = Some u \<and>
      generateToken e (user_id u) (t_payload clk) (t_sign clk) = Inr tok \<and>
      status (fst (login L e st ip b clk)) = 200 \<and>
      sessions (snd (login L e st ip b clk)) =
        sessions st @ [\<lparr>userId = user_id u, token = tok, session_createdAt = t_createdAt clk,
                        expiresAt = t_expiresAt clk + seven_days\<rparr>])"
  by (auto simp: login_def Let_def case_prod_beta too_many_def failure_def
      split: option.splits sum.splits)

lemma login_issue_other [simp]:
  "login_issue L e st (Register ip rb h now code) = []"
  "login_issue L e st (Logout hdr) = []"
  "login_issue L e st WindowReset = []"
  by (simp_all add: login_issue_def)

lemma generateToken_key:
  assumes "generateToken e uid t1 t2 = Inr tok"
  shows "token_key tok = Some (uid, t1, Some (t2 div 1000))"
  using generateToken_Inr [OF assms] by auto

lemma step_sessions_issued:
  assumes "\<forall>s\<in>set (sessions st). \<exists>key\<in>K. token_key (token s) = Some key"
  shows "\<forall>s\<in>set (sessions (step L e st ev)).
    \<exists>key\<in>K \<union> set (login_issue L e st ev). token_key (token s) = Some key"
proof (cases ev)
  case (Register ip b h now code)
  with assms show ?thesis by simp
next
  case (Login ip b clk)
  from login_outcome [of L e st ip b clk] show ?thesis
  proof
    assume "status (fst (login L e st ip b clk)) \<noteq> 200 \<and>
      sessions (snd (login L e st ip b clk)) = sessions st"
    with assms Login show ?thesis by auto
  next
    assume "\<exists>u tok. findUserByEmail (users st) (normalizeEmail L (email b)) = Some u \<and>
      generateToken e (user_id u) (t_payload clk) (t_sign clk) = Inr tok \<and>
      status (fst (login L e st ip b clk)) = 200 \<and>
      sessions (snd (login L e st ip b clk)) =
        sessions st @ [\<lparr>userId = user_id u, token = tok, session_createdAt = t_createdAt clk,
                        expiresAt = t_expiresAt clk + seven_days\<rparr>]"
    then obtain u tok where u: "findUserByEmail (users st) (normalizeEmail L (email b)) = Some u"
      and g: "generateToken e (user_id u) (t_payload clk) (t_sign clk) = Inr tok"
      and ok: "status (fst (login L e st ip b clk)) = 200"
      and s: "sessions (snd (login L e st ip b clk)) =
        sessions st @ [\<lparr>userId = user_id u, token = tok, session_createdAt = t_createdAt clk,
                        expiresAt = t_expiresAt clk + seven_days\<rparr>]"
      by blast
    from u ok Login
    have "login_issue L e st ev = [(user_id u, t_payload clk, Some (t_sign clk div 1000))]"
      by (simp add: login_issue_def)
    with assms Login s generateToken_key [OF g] show ?thesis
      by auto
  qed
next
  case (Logout hdr)
  have "set (sessions (snd (logout st hdr))) \<subseteq> set (sessions st)"
    using logout_sessions [of st hdr] by (auto dest: set_splice1)
  with assms Logout show ?thesis by auto
next
  case WindowReset
  with assms show ?thesis by (simp add: resetAll_def)
qed

lemma run_sessions_issued:
  "\<forall>s\<in>set (sessions (run L e init evs)).
     \<exists>key\<in>set (issued L e init evs). token_key (token s) = Some key"
proof (induction evs rule: rev_induct)
  case Nil
  show ?case by (simp add: run_Nil init_def)
next
  case (snoc ev evs)
  from step_sessions_issued [OF snoc.IH, of L e ev]
  show ?case by (simp add: run_snoc issued_snoc)
qed

lemma fresh_key_not_stored:
  assumes "key \<notin> set (issued L e init evs)" and "token_key tok = Some key"
  shows "tok \<notin> token ` set (sessions (run L e init evs))"
  using run_sessions_issued [of L e evs] assms by force

lemma run_tokens_distinct:
  "distinct (issued L e init evs) \<Longrightarrow> distinct (map token (sessions (run L e init evs)))"
proof (induction evs rule: rev_induct)
  case Nil
  show ?case by (simp add: run_Nil init_def)
next
  case (snoc ev evs)
  from snoc.prems have d: "distinct (issued L e init evs)"
    by (simp add: issued_snoc)
  note IH = snoc.IH [OF d]
  let ?st = "run L e init evs"
  show ?case
  proof (cases ev)
    case (Register ip b h now code)
    with IH show ?thesis by (simp add: run_snoc)
  next
    case (Login ip b clk)
    from login_outcome [of L e ?st ip b clk] show ?thesis
    proof
      assume "status (fst (login L e ?st ip b clk)) \<noteq> 200 \<and>
        sessions (snd (login L e ?st ip b clk)) = sessions ?st"
      with IH Login show ?thesis by (simp add: run_snoc)
    next
      assume "\<exists>u tok. findUserByEmail (users ?st) (normalizeEmail L (email b)) = Some u \<and>
        generateToken e (user_id u) (t_payload clk) (t_sign clk) = Inr tok \<and>
        status (fst (login L e ?st ip b clk)) = 200 \<and>
        sessions (snd (login L e ?st ip b clk)) =
          sessions ?st @ [\<lparr>userId = user_id u, token = tok, session_createdAt = t_createdAt clk,
                          expiresAt = t_expiresAt clk + seven_days\<rparr>]"
      then obtain u tok
        where u: "findUserByEmail (users ?st) (normalizeEmail L (email b)) = Some u"
        and g: "generateToken e (user_id u) (t_payload clk) (t_sign clk) = Inr tok"
        and ok: "status (fst (login L e ?st ip b clk)) = 200"
        and s: "sessions (snd (login L e ?st ip b clk)) =
          sessions ?st @ [\<lparr>userId = user_id u, token = tok, session_createdAt = t_createdAt clk,
                          expiresAt = t_expiresAt clk + seven_days\<rparr>]"
        by blast
      from u ok Login
      have "login_issue L e ?st ev = [(user_id u, t_payload clk, Some (t_sign clk div 1000))]"
        by (simp add: login_issue_def)
      with snoc.prems
      have "(user_id u, t_payload clk, Some (t_sign clk div 1000)) \<notin> set (issued L e init evs)"
        by (simp add: issued_snoc)
      from fresh_key_not_stored [OF this generateToken_key [OF g]]
      have "tok \<notin> token ` set (sessions ?st)" .
      with IH s Login show ?thesis by (simp add: run_snoc)
    qed
  next
    case (Logout hdr)
    from logout_sessions [of ?st hdr] IH Logout show ?thesis
      by (auto simp: run_snoc intro: distinct_map_splice1)
  next
    case WindowReset
    with IH show ?thesis by (simp add: run_snoc resetAll_def)
  qed
qed

subsection \<open>Runs and the emails of the users\<close>









subsection \<open>The routes on the concrete inputs\<close>

lemma generateToken0: "generateToken env0 1 1000 1000 = Inr token0"
  by (simp add: fixture_defs generateToken_def jwt_sign_def Let_def)

lemma run_register0: "run lib0 env0 init [register0] = state1"
  by (simp add: route_defs fixture_defs state1_def userType_buyer_def)

lemma register_init:
  "register lib0 init ip0 somchai (Some (36 # ascii ''longenough1'')) 500 (ascii ''X1Y2Z3'') =
     (\<lparr>status = 201,
       body = JObj [(''success'', JBool True), (''message'', JStr msg_register_ok),
                    (''user'', userResponse user0),
                    (''verificationCode'', JStr (ascii ''X1Y2Z3''))]\<rparr>, state1)"
  by (simp add: route_defs fixture_defs state1_def userType_buyer_def)

lemma step_register0: "step lib0 env0 init register0 = state1"
  by (simp add: register0_def register_init)

lemma login_state1:
  "login lib0 env0 state1 ip0 somchai_login clock0 =
     (\<lparr>status = 200,
       body = JObj [(''success'', JBool True), (''message'', JStr msg_login_ok),
                    (''token'', JTok token0), (''user'', userResponse user0)]\<rparr>, state2)"
  by (simp add: route_defs fixture_defs state1_def state2_def userResponse_def)

lemma login_state2:
  "login lib0 env0 state2 ip0 somchai_login clock0 =
     (\<lparr>status = 200,
       body = JObj [(''success'', JBool True), (''message'', JStr msg_login_ok),
                    (''token'', JTok token0), (''user'', userResponse user0)]\<rparr>, state3)"
  by (simp add: route_defs fixture_defs state2_def state3_def userResponse_def)

lemma login_tick:
  "login lib0 env0 state1 ip0 somchai_login clock_tick =
     (\<lparr>status = 200,
       body = JObj [(''success'', JBool True), (''message'', JStr msg_login_ok),
                    (''token'', JTok token0), (''user'', userResponse user0)]\<rparr>,
      state2\<lparr>sessions := [session_tick]\<rparr>)"
  by (simp add: route_defs fixture_defs state1_def state2_def userResponse_def)

lemma login_clock1:
  "login lib0 env0 state2 ip0 somchai_login clock1 =
     (\<lparr>status = 200,
       body = JObj [(''success'', JBool True), (''message'', JStr msg_login_ok),
                    (''token'', JTok token1), (''user'', userResponse user0)]\<rparr>,
      \<lparr>users = [user0\<lparr>lastLogin := Some 1001\<rparr>], sessions = [session0, session1],
       hits = (\<lambda>_. 0)(ip0 := Suc (Suc (Suc 0)))\<rparr>)"
  by (simp add: route_defs fixture_defs state2_def userResponse_def)

lemma run_login0: "run lib0 env0 init [register0, Login ip0 somchai_login clock0] = state2"
  using run_register0 login_state1 by (simp add: run_def)

lemma run_login0_twice:
  "run lib0 env0 init
     [register0, Login ip0 somchai_login clock0, Login ip0 somchai_login clock0] = state3"
  using run_register0 login_state1 login_state2 by (simp add: run_def)

lemma run_login30: "run lib0 env30 init [register0, Login ip0 somchai_login clock0] = state30"
  by (simp add: route_defs fixture_defs state30_def userType_buyer_def)

lemma bearer_None: "bearer None = None"
  by (simp add: bearer_def)

lemma bearer_header0: "bearer header0 = Some token0"
  by (simp add: bearer_def header0_def bearer_prefix_def ascii_def)

lemma bearer_header30: "bearer header30 = Some token30"
  by (simp add: bearer_def header30_def bearer_prefix_def ascii_def)

lemma bearer_unknown_header: "bearer unknown_header = Some (map Ch (ascii ''abc''))"
  by (simp add: bearer_def unknown_header_def bearer_prefix_def ascii_def)

lemma login_issue_register0: "login_issue L e st register0 = []"
  by (simp add: register0_def)

lemma login_issue_state1:
  "login_issue lib0 env0 state1 (Login ip0 somchai_login clock0) = [(1, 1000, Some 1)]"
proof -
  have f: "findUserByEmail (users state1) (normalizeEmail lib0 (email somchai_login)) = Some user0"
    by (simp add: findUserByEmail_def state1_def fixture_defs)
  have s: "status (fst (login lib0 env0 state1 ip0 somchai_login clock0)) = 200"
    by (simp add: login_state1)
  show ?thesis
    by (simp add: login_issue_def f s) (simp add: user0_def clock0_def)
qed

lemma login_issue_state2:
  "login_issue lib0 env0 state2 (Login ip0 somchai_login clock1) = [(1, 1001, Some 1)]"
proof -
  have f: "findUserByEmail (users state2) (normalizeEmail lib0 (email somchai_login)) =
      Some (user0\<lparr>lastLogin := Some 1000\<rparr>)"
    by (simp add: findUserByEmail_def state2_def fixture_defs)
  have s: "status (fst (login lib0 env0 state2 ip0 somchai_login clock1)) = 200"
    by (simp add: login_clock1)
  show ?thesis
    by (simp add: login_issue_def f s) (simp add: user0_def clock1_def)
qed

lemma issued_login0:
  "issued lib0 env0 init [register0, Login ip0 somchai_login clock0] = [(1, 1000, Some 1)]"
  by (simp add: step_register0 login_issue_register0 login_issue_state1)

lemma issued_login01:
  "issued lib0 env0 init
     [register0, Login ip0 somchai_login clock0, Login ip0 somchai_login clock1] =
     [(1, 1000, Some 1), (1, 1001, Some 1)]"
  by (simp add: step_register0 login_issue_register0 login_issue_state1 login_issue_state2
      login_state1)

subsection \<open>C1: what the signed payload holds, and the check of the session\<close>

text \<open>
  C1, as the code has it. A token that \<^verbatim>\<open>generateToken\<close> returns is the
  serialization of a payload with the \<open>userId\<close>, the time of issue (\<open>timestamp\<close> in
  milliseconds, \<open>iat\<close> in seconds) and an expiry \<open>exp = iat + JWT_EXPIRES_IN\<close>,
  signed with the secret. \<^verbatim>\<open>GET /me\<close> answers 401 to a token that \<^verbatim>\<open>jwt.verify\<close>
  refuses, one past its \<open>exp\<close> among them; and a token that \<^verbatim>\<open>jwt.verify\<close> accepts
  still gets 401 when no session record has it or when the record it selects has
  expired.
\<close>

theorem token_payload_and_session_check:
  "(generateToken e uid t1 t2 = Inr tok \<longrightarrow>
      (\<exists>k ms. JWT_SECRET e = Some k \<and> JWT_EXPIRES_IN e = Some ms \<and>
         tok = [Jws \<lparr>jwt_userId = uid, timestamp = t1, iat = Some (t2 div 1000),
                     exp = Some (t2 div 1000 + ms div 1000)\<rparr> k] \<and>
         (bearer hdr = Some tok \<and> t2 div 1000 + ms div 1000 \<le> t_verify div 1000 \<longrightarrow>
            me e st hdr t_verify now = failure 401 msg_me_invalid))) \<and>
   (bearer hdr = Some tok' \<and> tok' \<noteq> [] \<longrightarrow>
      (case jwt_verify tok' (JWT_SECRET e) t_verify of
         Inl err \<Rightarrow> me e st hdr t_verify now = failure 401 msg_me_invalid
       | Inr p \<Rightarrow>
           (case find (\<lambda>s. token s = tok') (sessions st) of
              None \<Rightarrow> me e st hdr t_verify now = failure 401 msg_me_expired
            | Some s \<Rightarrow>
                expiresAt s < now \<longrightarrow> me e st hdr t_verify now = failure 401 msg_me_expired)))"
proof (intro conjI impI)
  assume "generateToken e uid t1 t2 = Inr tok"
  from generateToken_Inr [OF this]
  obtain k ms where c: "JWT_SECRET e = Some k" "k \<noteq> []" "JWT_EXPIRES_IN e = Some ms"
    and t: "tok = [Jws \<lparr>jwt_userId = uid, timestamp = t1, iat = Some (t2 div 1000),
                        exp = Some (t2 div 1000 + ms div 1000)\<rparr> k]"
    by blast
  have "me e st hdr t_verify now = failure 401 msg_me_invalid"
    if "bearer hdr = Some tok" and "t2 div 1000 + ms div 1000 \<le> t_verify div 1000"
    using that c t by (simp add: me_with_token)
  with c t
  show "\<exists>k ms. JWT_SECRET e = Some k \<and> JWT_EXPIRES_IN e = Some ms \<and>
         tok = [Jws \<lparr>jwt_userId = uid, timestamp = t1, iat = Some (t2 div 1000),
                     exp = Some (t2 div 1000 + ms div 1000)\<rparr> k] \<and>
         (bearer hdr = Some tok \<and> t2 div 1000 + ms div 1000 \<le> t_verify div 1000 \<longrightarrow>
            me e st hdr t_verify now = failure 401 msg_me_invalid)"
    by blast
next
  assume "bearer hdr = Some tok' \<and> tok' \<noteq> []"
  then show "case jwt_verify tok' (JWT_SECRET e) t_verify of
         Inl err \<Rightarrow> me e st hdr t_verify now = failure 401 msg_me_invalid
       | Inr p \<Rightarrow>
           (case find (\<lambda>s. token s = tok') (sessions st) of
              None \<Rightarrow> me e st hdr t_verify now = failure 401 msg_me_expired
            | Some s \<Rightarrow>
                expiresAt s < now \<longrightarrow> me e st hdr t_verify now = failure 401 msg_me_expired)"
    by (simp add: me_with_token split: sum.splits option.splits)
qed

theorem token_payload_and_session_check_witness:
  "generateToken env0 1 1000 1000 =
     Inr [Jws \<lparr>jwt_userId = 1, timestamp = 1000, iat = Some 1, exp = Some 3601\<rparr>
            (ascii ''secret'')] \<and>
   bearer header0 = Some token0 \<and>
   jwt_verify token0 (JWT_SECRET env0) 2000 =
     Inr \<lparr>jwt_userId = 1, timestamp = 1000, iat = Some 1, exp = Some 3601\<rparr> \<and>
   find (\<lambda>s. token s = token0) (sessions state1) = None \<and>
   me env0 state1 header0 2000 2000 = failure 401 msg_me_expired \<and>
   me env0 state1 header0 3601000 3601000 = failure 401 msg_me_invalid"
proof -
  have g: "generateToken env0 1 1000 1000 = Inr token0"
    by (rule generateToken0)
  have t: "token0 \<noteq> []"
    by (simp add: token0_def)
  have v: "jwt_verify token0 (JWT_SECRET env0) 2000 =
     Inr \<lparr>jwt_userId = 1, timestamp = 1000, iat = Some 1, exp = Some 3601\<rparr>"
    "jwt_verify token0 (JWT_SECRET env0) 3601000 = Inl TokenExpiredError"
    by (simp_all add: token0_def env0_def ascii_def)
  have f: "find (\<lambda>s. token s = token0) (sessions state1) = None"
    by (simp add: state1_def)
  show ?thesis
    using g t v f bearer_header0
      token_payload_and_session_check [where e = env0 and uid = 1 and ?t1.0 = 1000
        and ?t2.0 = 1000 and tok = token0 and hdr = header0 and tok' = token0
        and t_verify = 2000 and st = state1 and now = 2000]
      token_payload_and_session_check [where e = env0 and uid = 1 and ?t1.0 = 1000
        and ?t2.0 = 1000 and tok = token0 and hdr = header0 and tok' = token0
        and t_verify = 3601000 and st = state1 and now = 3601000]
    by (simp add: token0_def)
qed

text \<open>
  The claim as it is written fails: the payload signed for user 1 under a time span of
  one hour holds an expiry, and \<^verbatim>\<open>GET /me\<close> refuses the token at the clock value
  3601000 although its session record is in the store and expires seven days after the
  login.
\<close>

theorem token_carries_expiry:
  "generateToken env0 1 1000 1000 =
     Inr [Jws \<lparr>jwt_userId = 1, timestamp = 1000, iat = Some 1, exp = Some 3601\<rparr>
            (ascii ''secret'')] \<and>
   find (\<lambda>s. token s = token0)
     (sessions (run lib0 env0 init [register0, Login ip0 somchai_login clock0])) = Some session0 \<and>
   3601000 < expiresAt session0 \<and>
   me env0 (run lib0 env0 init [register0, Login ip0 somchai_login clock0]) header0
     3601000 3601000 = failure 401 msg_me_invalid"
proof -
  have g: "generateToken env0 1 1000 1000 = Inr token0"
    by (rule generateToken0)
  have t: "token0 \<noteq> []"
    by (simp add: token0_def)
  have v: "jwt_verify token0 (JWT_SECRET env0) 3601000 = Inl TokenExpiredError"
    by (simp add: token0_def env0_def ascii_def)
  show ?thesis
    using g v
    by (simp add: run_login0 me_with_token [OF bearer_header0 t] state2_def session0_def
        seven_days_def token0_def)
qed

subsection \<open>C2: the tokens of the sessions\<close>

text \<open>
  C2, as the code has it. A token is determined by the user, by the two clock values
  its login reads for the payload (\<open>timestamp\<close> in milliseconds, \<open>iat\<close> in seconds)
  and by the configuration. In every state reached from the empty stores by a run of
  register, login and logout requests in which no two successful logins of one user
  read the same two values, any two session records have distinct tokens. And after
  any run, a login of a user with clock values that no successful login of that user
  has read in the run issues a token that no session record holds.
\<close>

theorem session_tokens_distinct:
  "(distinct (issued L e init evs) \<longrightarrow> distinct (map token (sessions (run L e init evs)))) \<and>
   ((uid, t_payload clk, Some (t_sign clk div 1000)) \<notin> set (issued L e init evs) \<longrightarrow>
      (\<forall>tok. generateToken e uid (t_payload clk) (t_sign clk) = Inr tok \<longrightarrow>
         tok \<notin> token ` set (sessions (run L e init evs))))"
  using run_tokens_distinct [of L e evs] fresh_key_not_stored [of _ L e evs] generateToken_key
  by blast

theorem session_tokens_distinct_witness:
  "issued lib0 env0 init
     [register0, Login ip0 somchai_login clock0, Login ip0 somchai_login clock1] =
     [(1, 1000, Some 1), (1, 1001, Some 1)] \<and>
   map token (sessions (run lib0 env0 init
     [register0, Login ip0 somchai_login clock0, Login ip0 somchai_login clock1])) =
     [token0, token1] \<and>
   distinct (map token (sessions (run lib0 env0 init
     [register0, Login ip0 somchai_login clock0, Login ip0 somchai_login clock1]))) \<and>
   generateToken env0 1 (t_payload clock1) (t_sign clock1) = Inr token1 \<and>
   token1 \<notin> token ` set (sessions (run lib0 env0 init
     [register0, Login ip0 somchai_login clock0]))"
proof -
  have c: "t_payload clock1 = 1001" "t_sign clock1 div 1000 = 1"
    by (simp_all add: clock1_def)
  have r: "map token (sessions (run lib0 env0 init
     [register0, Login ip0 somchai_login clock0, Login ip0 somchai_login clock1])) =
     [token0, token1]"
    using run_register0 login_state1 login_clock1
    by (simp add: run_def session0_def session1_def)
  have g: "generateToken env0 1 (t_payload clock1) (t_sign clock1) = Inr token1"
    by (simp add: fixture_defs generateToken_def jwt_sign_def Let_def)
  show ?thesis
    using c r g issued_login0 issued_login01
      session_tokens_distinct [of lib0 env0
        "[register0, Login ip0 somchai_login clock0, Login ip0 somchai_login clock1]" 1 clock1]
      session_tokens_distinct [of lib0 env0 "[register0, Login ip0 somchai_login clock0]"
        1 clock1]
    by simp
qed

text \<open>
  The claim as it is written fails: nothing but the clock makes a token new, so two
  logins of one user that read the same clock values leave two session records with
  the same token.
\<close>

theorem session_token_twice:
  "map token (sessions (run lib0 env0 init
     [register0, Login ip0 somchai_login clock0, Login ip0 somchai_login clock0])) =
     [token0, token0] \<and>
   \<not> distinct (map token (sessions (run lib0 env0 init
     [register0, Login ip0 somchai_login clock0, Login ip0 somchai_login clock0])))"
  by (simp add: run_login0_twice state3_def session0_def)

subsection \<open>C3: the credential failures of login\<close>

text \<open>
  What the two branches of the handler do. Two well-formed login requests, each of
  which fails because no user has its email or because \<^verbatim>\<open>bcrypt.compare\<close> returns
  false, get the same response, status and body, in any two states and from any two
  clients, and its status is 401.
\<close>

lemma login_failure_same_response:
  assumes "login_well_formed L st ip b" and "no_such_email L st b \<or> wrong_password L st b"
    and "login_well_formed L st' ip' b'"
    and "no_such_email L st' b' \<or> wrong_password L st' b'"
  shows "fst (login L e st ip b clk) = fst (login L e st' ip' b' clk') \<and>
         status (fst (login L e st ip b clk)) = 401"
  using assms
  by (auto simp: login_def Let_def case_prod_beta failure_def login_well_formed_def
      no_such_email_def wrong_password_def msg_login_no_user_def msg_login_bad_password_def
      split: option.splits)

lemma login_failure_same_response_example:
  "login_well_formed lib0 state1 ip0 unknown_login \<and> no_such_email lib0 state1 unknown_login \<and>
   login_well_formed lib0 state1 ip0 wrong_login \<and> wrong_password lib0 state1 wrong_login \<and>
   fst (login lib0 env0 state1 ip0 unknown_login clock0) =
     fst (login lib0 env0 state1 ip0 wrong_login clock0) \<and>
   status (fst (login lib0 env0 state1 ip0 unknown_login clock0)) = 401"
proof -
  have a: "login_well_formed lib0 state1 ip0 unknown_login"
    by (simp add: login_well_formed_def authLimiter_def validateLogin_def state1_def
        fixture_defs Let_def)
  have b: "no_such_email lib0 state1 unknown_login"
    by (simp add: no_such_email_def findUserByEmail_def state1_def fixture_defs)
  have c: "login_well_formed lib0 state1 ip0 wrong_login"
    by (simp add: login_well_formed_def authLimiter_def validateLogin_def state1_def
        fixture_defs Let_def)
  have d: "wrong_password lib0 state1 wrong_login"
    by (simp add: wrong_password_def findUserByEmail_def state1_def fixture_defs)
  show ?thesis
    using a b c d
      login_failure_same_response [OF a disjI1 [OF b] c disjI2 [OF d], of env0 clock0 clock0]
    by blast
qed

text \<open>
  C3 says that for every state and every well-formed login request the response is
  the same, status 401 and one body, whether no user has the email or the email is
  that of a user and the password does not verify against the stored hash. The
  handler breaks this for a password that is not a string. After the registration of
  \<^verbatim>\<open>a@b.com\<close>, take the two bodies with the password \<^verbatim>\<open>12345678\<close>, a JSON number:
  both pass the limiter and \<^verbatim>\<open>validateLogin\<close>, whose \<^verbatim>\<open>notEmpty\<close> sees the digits.
  With the email \<^verbatim>\<open>x@b.com\<close> of no user the answer is the 401 of line 139. With the
  email \<^verbatim>\<open>a@b.com\<close> the handler goes on to \<^verbatim>\<open>bcrypt.compare\<close>, which rejects the
  number, and the \<^verbatim>\<open>catch\<close> block answers with the 500 of line 186. The two
  responses differ, and tell the caller which email has an account.
\<close>

theorem login_number_password_tells_email:
  "login_well_formed lib0 (run lib0 env0 init [register0]) ip0 unknown_number_login \<and>
   no_such_email lib0 (run lib0 env0 init [register0]) unknown_number_login \<and>
   fst (login lib0 env0 (run lib0 env0 init [register0]) ip0 unknown_number_login clock0) =
     failure 401 msg_login_no_user \<and>
   login_well_formed lib0 (run lib0 env0 init [register0]) ip0 number_login \<and>
   compare_rejected lib0 (run lib0 env0 init [register0]) number_login \<and>
   fst (login lib0 env0 (run lib0 env0 init [register0]) ip0 number_login clock0) =
     failure 500 msg_login_error \<and>
   fst (login lib0 env0 (run lib0 env0 init [register0]) ip0 unknown_number_login clock0) \<noteq>
     fst (login lib0 env0 (run lib0 env0 init [register0]) ip0 number_login clock0)"
proof -
  have a: "login_well_formed lib0 state1 ip0 unknown_number_login"
    "login_well_formed lib0 state1 ip0 number_login"
    by (simp_all add: login_well_formed_def authLimiter_def validateLogin_def
        validate_field_def elements_def stringify_def state1_def fixture_defs Let_def)
  have b: "no_such_email lib0 state1 unknown_number_login"
    by (simp add: no_such_email_def findUserByEmail_def state1_def fixture_defs)
  have c: "compare_rejected lib0 state1 number_login"
    by (simp add: compare_rejected_def findUserByEmail_def bcrypt_compare_await_def state1_def
        fixture_defs)
  have u: "fst (login lib0 env0 state1 ip0 unknown_number_login clock0) =
      failure 401 msg_login_no_user"
    using a(1) b
    by (simp add: login_def Let_def case_prod_beta login_well_formed_def no_such_email_def)
  have k: "fst (login lib0 env0 state1 ip0 number_login clock0) = failure 500 msg_login_error"
    using a(2) c
    by (auto simp: login_def Let_def case_prod_beta login_well_formed_def compare_rejected_def
        split: option.splits)
  have "failure 401 msg_login_no_user \<noteq> failure 500 msg_login_error"
    by (simp add: failure_def)
  with a b c u k show ?thesis
    by (simp add: run_register0)
qed

subsection \<open>C4: logout always succeeds\<close>

text \<open>
  C4, as the code has it. For every state, a logout request without a token, with a
  token that no session has and with a token that a session has are all answered with
  status 200 and \<^verbatim>\<open>success: true\<close>. In the first two cases the state is unchanged;
  in the third exactly one session record is removed. When the token was the token of
  exactly one session record, \<^verbatim>\<open>GET /me\<close> with that token is unauthorized (401)
  afterwards.
\<close>

theorem logout_fail_open:
  "fst (logout st hdr) =
     \<lparr>status = 200, body = JObj [(''success'', JBool True), (''message'', JStr msg_logout_ok)]\<rparr> \<and>
   (case bearer hdr of
      None \<Rightarrow> snd (logout st hdr) = st
    | Some tok \<Rightarrow>
        if tok = [] \<or> tok \<notin> token ` set (sessions st) then snd (logout st hdr) = st
        else length (sessions (snd (logout st hdr))) + 1 = length (sessions st) \<and>
             (length (filter (\<lambda>s. token s = tok) (sessions st)) = 1 \<longrightarrow>
                status (me e (snd (logout st hdr)) hdr t_verify now) = 401))"
proof -
  have r: "fst (logout st hdr) =
     \<lparr>status = 200, body = JObj [(''success'', JBool True), (''message'', JStr msg_logout_ok)]\<rparr>"
    by (simp add: logout_def)
  have m: "status (me e (snd (logout st hdr)) hdr t_verify now) = 401"
    if b: "bearer hdr = Some tok" and t: "tok \<noteq> []" and "tok \<in> token ` set (sessions st)"
      and one: "length (filter (\<lambda>s. token s = tok) (sessions st)) = 1" for tok
  proof -
    from logout_match [OF that(1-3)] one
    have "filter (\<lambda>s. token s = tok) (sessions (snd (logout st hdr))) = []"
      by simp
    then have "find (\<lambda>s. token s = tok) (sessions (snd (logout st hdr))) = None"
      by (rule find_filter_empty)
    then show ?thesis
      by (simp add: me_with_token [OF b t] failure_def split: sum.splits)
  qed
  show ?thesis
    using r m logout_no_match [of hdr st] logout_match [of hdr _ st]
    by (auto split: option.splits)
qed


theorem logout_fail_open_witness:
  "fst (logout state2 None) =
     \<lparr>status = 200, body = JObj [(''success'', JBool True), (''message'', JStr msg_logout_ok)]\<rparr> \<and>
   snd (logout state2 None) = state2 \<and>
   fst (logout state2 unknown_header) = fst (logout state2 None) \<and>
   snd (logout state2 unknown_header) = state2 \<and>
   fst (logout state2 header0) = fst (logout state2 None) \<and>
   sessions state2 = [session0] \<and>
   sessions (snd (logout state2 header0)) = [] \<and>
   status (me env0 (snd (logout state2 header0)) header0 2000 2000) = 401"
proof -
  have s: "sessions state2 = [session0]" "token session0 = token0" "token0 \<noteq> []"
    "map Ch (ascii ''abc'') \<noteq> token0"
    by (simp_all add: state2_def session0_def token0_def ascii_def)
  show ?thesis
    using s
      logout_fail_open [of state2 None env0 2000 2000]
      logout_fail_open [of state2 unknown_header env0 2000 2000]
      logout_fail_open [of state2 header0 env0 2000 2000]
    by (simp add: bearer_header0 bearer_unknown_header bearer_None)
qed

text \<open>
  The claim as it is written, for every state, fails where two records carry the token:
  two logins of one user that read the same clock values store the same token twice,
  logout removes the first of the two records, and \<^verbatim>\<open>GET /me\<close> with the token is
  still answered with status 200.
\<close>

theorem logout_leaves_duplicate:
  "sessions (run lib0 env0 init
     [register0, Login ip0 somchai_login clock0, Login ip0 somchai_login clock0]) =
     [session0, session0] \<and>
   sessions (snd (logout (run lib0 env0 init
     [register0, Login ip0 somchai_login clock0, Login ip0 somchai_login clock0]) header0)) =
     [session0] \<and>
   status (me env0 (snd (logout (run lib0 env0 init
     [register0, Login ip0 somchai_login clock0, Login ip0 somchai_login clock0]) header0))
     header0 2000 2000) = 200"
proof -
  have t: "token0 \<noteq> []"
    by (simp add: token0_def)
  have l: "snd (logout state3 header0) = state2\<lparr>hits := hits state3\<rparr>"
    by (simp add: logout_def bearer_header0 t state3_def state2_def session0_def)
  have v: "jwt_verify token0 (JWT_SECRET env0) 2000 =
     Inr \<lparr>jwt_userId = 1, timestamp = 1000, iat = Some 1, exp = Some 3601\<rparr>"
    by (simp add: token0_def env0_def ascii_def)
  have m: "me env0 (state2\<lparr>hits := hits state3\<rparr>) header0 2000 2000 =
    \<lparr>status = 200,
     body = JObj [(''success'', JBool True),
                  (''user'', meResponse (user0\<lparr>lastLogin := Some 1000\<rparr>))]\<rparr>"
    by (simp add: v me_with_token [OF bearer_header0 t] state2_def session0_def user0_def
        seven_days_def)
  show ?thesis
    unfolding run_login0_twice l m by (simp add: state3_def state2_def)
qed

subsection \<open>C5: the round trip of a token\<close>

text \<open>
  C5, as the code has it. When the signing secret is set and not empty and
  \<^verbatim>\<open>JWT_EXPIRES_IN\<close> is a time span, \<^verbatim>\<open>generateToken(userId)\<close> returns a token for
  every \<open>userId\<close>, and \<^verbatim>\<open>jwt.verify\<close> with the same secret yields a payload with
  that \<open>userId\<close> as long as the clock, in seconds, is before \<^verbatim>\<open>iat + expiresIn\<close>.
  From that second on the same call throws \<^verbatim>\<open>TokenExpiredError\<close>.
\<close>

theorem token_round_trip:
  assumes "JWT_SECRET e = Some k" and "k \<noteq> []" and "JWT_EXPIRES_IN e = Some ms"
  shows "\<exists>tok. generateToken e uid t1 t2 = Inr tok \<and>
           (if now div 1000 < t2 div 1000 + ms div 1000
            then \<exists>p. jwt_verify tok (JWT_SECRET e) now = Inr p \<and> jwt_userId p = uid
            else jwt_verify tok (JWT_SECRET e) now = Inl TokenExpiredError)"
  using assms by (simp add: generateToken_ok)

theorem token_round_trip_witness:
  "generateToken env0 1 1000 1000 = Inr token0 \<and>
   jwt_verify token0 (JWT_SECRET env0) 2000 =
     Inr \<lparr>jwt_userId = 1, timestamp = 1000, iat = Some 1, exp = Some 3601\<rparr>"
  using token_round_trip [of env0 "ascii ''secret''" 3600000 2000 1000 1 1000]
  by (simp add: fixture_defs generateToken_def jwt_sign_def Let_def)

text \<open>
  The claim as it is written, with no condition on the time of decoding, fails: the
  token issued for user 1 at the clock value 1000 with a time span of one hour is
  refused at the clock value 3601000.
\<close>

theorem token_round_trip_expired:
  "generateToken env0 1 1000 1000 = Inr token0 \<and>
   jwt_verify token0 (JWT_SECRET env0) 3601000 = Inl TokenExpiredError"
  by (simp add: fixture_defs generateToken_def jwt_sign_def Let_def)

subsection \<open>C6: the boundary of the expiry of a session\<close>

text \<open>
  C6. Let the token presented to \<^verbatim>\<open>GET /me\<close> select a session record, and let
  \<open>now\<close> be the clock the handler compares with. Strictly after \<open>expiresAt\<close> the
  request is unauthorized (401). At \<open>now = expiresAt\<close> and before it, the response is
  never the one for an expired session. When the token passes \<^verbatim>\<open>jwt.verify\<close>, the
  response is the one for an expired session exactly when \<open>expiresAt < now\<close>;
  otherwise the lookup goes on to the user and answers 200 or 404: the comparison
  \<^verbatim>\<open>expiresAt < now\<close> counts the boundary as not expired.
\<close>

theorem session_expiry_boundary:
  assumes "bearer hdr = Some tok" and "tok \<noteq> []"
    and "find (\<lambda>s. token s = tok) (sessions st) = Some s"
  shows "(expiresAt s < now \<longrightarrow> status (me e st hdr t_verify now) = 401) \<and>
         (now \<le> expiresAt s \<longrightarrow> me e st hdr t_verify now \<noteq> failure 401 msg_me_expired) \<and>
         ((\<exists>p. jwt_verify tok (JWT_SECRET e) t_verify = Inr p) \<longrightarrow>
            (if expiresAt s < now then me e st hdr t_verify now = failure 401 msg_me_expired
             else status (me e st hdr t_verify now) \<in> {200, 404}))"
  using assms me_messages_differ
  by (auto simp: me_with_token failure_def split: sum.splits option.splits)

theorem session_expiry_boundary_witness:
  "bearer header30 = Some token30 \<and>
   find (\<lambda>s. token s = token30) (sessions state30) = Some session30 \<and>
   expiresAt session30 = 604801000 \<and>
   status (me env30 state30 header30 604800999 604800999) = 200 \<and>
   status (me env30 state30 header30 604801000 604801000) = 200 \<and>
   me env30 state30 header30 604801001 604801001 = failure 401 msg_me_expired"
proof -
  have f: "find (\<lambda>s. token s = token30) (sessions state30) = Some session30"
    by (simp add: state30_def session30_def)
  have t: "token30 \<noteq> []"
    by (simp add: token30_def)
  have x: "expiresAt session30 = 604801000"
    by (simp add: session30_def seven_days_def)
  have v: "jwt_verify token30 (JWT_SECRET env30) 604800999 = Inr \<lparr>jwt_userId = 1, timestamp = 1000, iat = Some 1, exp = Some 2592001\<rparr>"
    "jwt_verify token30 (JWT_SECRET env30) 604801000 = Inr \<lparr>jwt_userId = 1, timestamp = 1000, iat = Some 1, exp = Some 2592001\<rparr>"
    "jwt_verify token30 (JWT_SECRET env30) 604801001 = Inr \<lparr>jwt_userId = 1, timestamp = 1000, iat = Some 1, exp = Some 2592001\<rparr>"
    by (simp_all add: token30_def env30_def ascii_def)
  have u: "find (\<lambda>u. user_id u = 1) (users state30) \<noteq> None"
    by (simp add: state30_def user0_def)
  show ?thesis
    using f x v
      session_expiry_boundary [OF bearer_header30 t f, of 604800999 env30 604800999]
      session_expiry_boundary [OF bearer_header30 t f, of 604801000 env30 604801000]
      session_expiry_boundary [OF bearer_header30 t f, of 604801001 env30 604801001]
    by (auto simp: bearer_header30 me_with_token [OF bearer_header30 t] failure_def state30_def user0_def)
qed

subsection \<open>C7: a rejected request changes no store\<close>

lemma register_rejected:
  assumes "\<not> fst (authLimiter st ip) \<or> fst (validateRegister L b) \<noteq> []"
  shows "users (snd (register L st ip b h now code)) = users st \<and>
    sessions (snd (register L st ip b h now code)) = sessions st \<and>
    status (fst (register L st ip b h now code)) \<in> {429, 400}"
  using assms
  by (auto simp: register_def Let_def case_prod_beta too_many_def failure_def
      split: option.splits sum.splits)

lemma login_rejected:
  assumes "\<not> fst (authLimiter st ip) \<or> fst (validateLogin L b) \<noteq> [] \<or>
    no_such_email L st b \<or> wrong_password L st b"
  shows "users (snd (login L e st ip b clk)) = users st \<and>
    sessions (snd (login L e st ip b clk)) = sessions st \<and>
    status (fst (login L e st ip b clk)) \<in> {429, 400, 401}"
  using assms
  by (auto simp: login_def Let_def case_prod_beta too_many_def failure_def
      no_such_email_def wrong_password_def split: option.splits sum.splits)

lemma login_compare_rejected:
  assumes "login_well_formed L st ip b" and "compare_rejected L st b"
  shows "users (snd (login L e st ip b clk)) = users st \<and>
    sessions (snd (login L e st ip b clk)) = sessions st \<and>
    fst (login L e st ip b clk) = failure 500 msg_login_error"
  using assms
  by (auto simp: login_def Let_def case_prod_beta login_well_formed_def compare_rejected_def
      split: option.splits)

text \<open>
  C7. A register request that the limiter rejects or that fails validation leaves the
  array of users (every field of every user, \<open>lastLogin\<close> among them) and the array of
  sessions as they were, and answers 429 or 400. So does a login request, which also
  leaves both arrays as they were when no user has the email or the password does not
  verify; it then answers 401, a response without a token. A well-formed login whose
  password \<^verbatim>\<open>bcrypt.compare\<close> rejects leaves both arrays as they were too, and
  answers 500.
\<close>

theorem no_mutation_on_rejection:
  "(\<not> fst (authLimiter st ip) \<or> fst (validateRegister L rb) \<noteq> [] \<longrightarrow>
      users (snd (register L st ip rb h now code)) = users st \<and>
      sessions (snd (register L st ip rb h now code)) = sessions st \<and>
      status (fst (register L st ip rb h now code)) \<in> {429, 400}) \<and>
   (\<not> fst (authLimiter st ip) \<or> fst (validateLogin L lb) \<noteq> [] \<or>
    no_such_email L st lb \<or> wrong_password L st lb \<longrightarrow>
      users (snd (login L e st ip lb clk)) = users st \<and>
      sessions (snd (login L e st ip lb clk)) = sessions st \<and>
      status (fst (login L e st ip lb clk)) \<in> {429, 400, 401}) \<and>
   (login_well_formed L st ip lb \<and> compare_rejected L st lb \<longrightarrow>
      users (snd (login L e st ip lb clk)) = users st \<and>
      sessions (snd (login L e st ip lb clk)) = sessions st \<and>
      status (fst (login L e st ip lb clk)) = 500)"
proof -
  have "status (fst (login L e st ip lb clk)) = 500"
    if "login_well_formed L st ip lb" and "compare_rejected L st lb"
    using login_compare_rejected [OF that, of e clk] by (simp add: failure_def)
  with register_rejected [of st ip L rb h now code] login_rejected [of st ip L lb e clk]
    login_compare_rejected [of L st ip lb e clk]
  show ?thesis by blast
qed

theorem no_mutation_on_rejection_witness:
  "fst (validateRegister lib0 short_password) \<noteq> [] \<and>
   users (snd (register lib0 state1 ip0 short_password None 600 [])) = users state1 \<and>
   sessions (snd (register lib0 state1 ip0 short_password None 600 [])) = sessions state1 \<and>
   wrong_password lib0 state1 wrong_login \<and>
   users (snd (login lib0 env0 state1 ip0 wrong_login clock0)) = users state1 \<and>
   sessions (snd (login lib0 env0 state1 ip0 wrong_login clock0)) = sessions state1 \<and>
   fst (authLimiter state_limited ip0) = False \<and>
   users (snd (login lib0 env0 state_limited ip0 somchai_login clock0)) = users state_limited \<and>
   sessions (snd (login lib0 env0 state_limited ip0 somchai_login clock0)) =
     sessions state_limited \<and>
   login_well_formed lib0 state1 ip0 number_login \<and>
   compare_rejected lib0 state1 number_login \<and>
   users (snd (login lib0 env0 state1 ip0 number_login clock0)) = users state1 \<and>
   sessions (snd (login lib0 env0 state1 ip0 number_login clock0)) = sessions state1 \<and>
   status (fst (login lib0 env0 state1 ip0 number_login clock0)) = 500"
proof -
  have n: "login_well_formed lib0 state1 ip0 number_login"
    by (simp add: login_well_formed_def authLimiter_def validateLogin_def validate_field_def
        elements_def stringify_def state1_def fixture_defs Let_def)
  have c: "compare_rejected lib0 state1 number_login"
    by (simp add: compare_rejected_def findUserByEmail_def bcrypt_compare_await_def state1_def
        fixture_defs)
  have v: "fst (validateRegister lib0 short_password) \<noteq> []"
    by (simp add: validateRegister_def fixture_defs Let_def)
  have w: "wrong_password lib0 state1 wrong_login"
    by (simp add: wrong_password_def findUserByEmail_def state1_def fixture_defs)
  have l: "fst (authLimiter state_limited ip0) = False"
    by (simp add: authLimiter_def state_limited_def Let_def)
  show ?thesis
    using v w l n c
      no_mutation_on_rejection [of state1 ip0 lib0 short_password None 600 "[]" wrong_login
        env0 clock0]
      no_mutation_on_rejection [of state_limited ip0 lib0 short_password None 600 "[]"
        somchai_login env0 clock0]
      no_mutation_on_rejection [of state1 ip0 lib0 short_password None 600 "[]" number_login
        env0 clock0]
    by simp
qed

subsection \<open>C8: one user for each normalized email\<close>




subsection \<open>C9: the duration of a session\<close>

text \<open>
  C9, as the code has it. In every state reached from the empty stores by register,
  login and logout requests (and resets of the limiter), every session record was
  stored by a login of the run: its \<open>createdAt\<close> is the clock that login read for
  \<^verbatim>\<open>createdAt\<close>, and its \<open>expiresAt\<close> is the clock the login read next, for
  \<^verbatim>\<open>expiresAt\<close>, plus seven days. No request rewrites the two fields. Hence
  \<open>expiresAt = createdAt + 7 days\<close> holds for every record when each login read the
  same millisecond twice, and \<open>createdAt + 7 days \<le> expiresAt\<close> when the clock of no
  login went backwards between the two reads.
\<close>

theorem session_duration:
  "(\<forall>s\<in>set (sessions (run L e init evs)). \<exists>clk\<in>set (login_clocks evs).
       session_createdAt s = t_createdAt clk \<and> expiresAt s = t_expiresAt clk + seven_days) \<and>
   ((\<forall>clk\<in>set (login_clocks evs). t_expiresAt clk = t_createdAt clk) \<longrightarrow>
      (\<forall>s\<in>set (sessions (run L e init evs)). expiresAt s = session_createdAt s + seven_days)) \<and>
   ((\<forall>clk\<in>set (login_clocks evs). t_createdAt clk \<le> t_expiresAt clk) \<longrightarrow>
      (\<forall>s\<in>set (sessions (run L e init evs)). session_createdAt s + seven_days \<le> expiresAt s))"
proof -
  have o: "\<exists>clk\<in>set (login_clocks evs).
       session_createdAt s = t_createdAt clk \<and> expiresAt s = t_expiresAt clk + seven_days"
    if "s \<in> set (sessions (run L e init evs))" for s
    using run_sessions_origin [of L e evs] that by (auto simp: stored_by_def)
  show ?thesis
  proof (intro conjI impI ballI)
    fix s assume "s \<in> set (sessions (run L e init evs))"
    then show "\<exists>clk\<in>set (login_clocks evs).
       session_createdAt s = t_createdAt clk \<and> expiresAt s = t_expiresAt clk + seven_days"
      by (rule o)
  next
    fix s assume "\<forall>clk\<in>set (login_clocks evs). t_expiresAt clk = t_createdAt clk"
      and "s \<in> set (sessions (run L e init evs))"
    with o [of s] show "expiresAt s = session_createdAt s + seven_days"
      by auto
  next
    fix s assume "\<forall>clk\<in>set (login_clocks evs). t_createdAt clk \<le> t_expiresAt clk"
      and "s \<in> set (sessions (run L e init evs))"
    with o [of s] show "session_createdAt s + seven_days \<le> expiresAt s"
      by auto
  qed
qed

theorem session_duration_witness:
  "sessions (run lib0 env0 init [register0, Login ip0 somchai_login clock0]) = [session0] \<and>
   login_clocks [register0, Login ip0 somchai_login clock0] = [clock0] \<and>
   t_expiresAt clock0 = t_createdAt clock0 \<and>
   session_createdAt session0 = t_createdAt clock0 \<and>
   expiresAt session0 = session_createdAt session0 + seven_days"
proof -
  have r: "sessions (run lib0 env0 init [register0, Login ip0 somchai_login clock0]) = [session0]"
    by (simp add: run_login0 state2_def)
  have c: "login_clocks [register0, Login ip0 somchai_login clock0] = [clock0]"
    by (simp add: register0_def)
  have t: "t_expiresAt clock0 = t_createdAt clock0"
    "session_createdAt session0 = t_createdAt clock0"
    by (simp_all add: clock0_def session0_def)
  show ?thesis
    using r c t session_duration [of lib0 env0 "[register0, Login ip0 somchai_login clock0]"]
    by simp
qed

text \<open>
  The claim as it is written fails when the clock moves on between the two reads of a
  login: the record then expires seven days and one millisecond after its
  \<open>createdAt\<close>.
\<close>

theorem session_duration_tick:
  "sessions (run lib0 env0 init [register0, Login ip0 somchai_login clock_tick]) =
     [session_tick] \<and>
   session_createdAt session_tick + seven_days = 604801000 \<and>
   expiresAt session_tick = 604801001"
  using run_register0 login_tick
  by (simp add: run_def session_tick_def seven_days_def)

subsection \<open>C10: what logout leaves alone\<close>

text \<open>
  C10. For every state and every logout request the array of users is unchanged, and
  so are the counts of the limiter. The array of sessions is either unchanged, or it
  loses exactly one record: the one at the first index whose token equals the token
  presented, while the records before and after it stay as they are, in their order.
  This holds whether or not other records carry the same token.
\<close>

theorem logout_frame:
  "users (snd (logout st hdr)) = users st \<and> hits (snd (logout st hdr)) = hits st \<and>
   (sessions (snd (logout st hdr)) = sessions st \<or>
    (\<exists>tok i. bearer hdr = Some tok \<and> i < length (sessions st) \<and>
       token (sessions st ! i) = tok \<and> (\<forall>j<i. token (sessions st ! j) \<noteq> tok) \<and>
       sessions (snd (logout st hdr)) = take i (sessions st) @ drop (Suc i) (sessions st)))"
proof -
  have "sessions (snd (logout st hdr)) = sessions st \<or>
    (\<exists>tok i. bearer hdr = Some tok \<and> i < length (sessions st) \<and>
       token (sessions st ! i) = tok \<and> (\<forall>j<i. token (sessions st ! j) \<noteq> tok) \<and>
       sessions (snd (logout st hdr)) = take i (sessions st) @ drop (Suc i) (sessions st))"
  proof (cases "bearer hdr")
    case None
    then show ?thesis by (simp add: logout_def)
  next
    case (Some tok)
    show ?thesis
    proof (cases "findIndex (\<lambda>s. token s = tok) (sessions st)")
      case None
      with Some show ?thesis by (simp add: logout_def)
    next
      case (Some i)
      note idx = findIndex_SomeD [OF Some]
      show ?thesis
      proof (cases "tok = []")
        case True
        with \<open>bearer hdr = Some tok\<close> show ?thesis by (simp add: logout_def)
      next
        case False
        with \<open>bearer hdr = Some tok\<close> Some
        have "sessions (snd (logout st hdr)) = take i (sessions st) @ drop (Suc i) (sessions st)"
          by (simp add: logout_def splice1_def)
        with idx \<open>bearer hdr = Some tok\<close> show ?thesis by blast
      qed
    qed
  qed
  then show ?thesis by simp
qed

theorem logout_frame_witness:
  "users (snd (logout state3 header0)) = users state3 \<and>
   sessions state3 = [session0, session0] \<and>
   sessions (snd (logout state3 header0)) = [session0]"
  using logout_frame [of state3 header0]
  by (simp add: logout_def bearer_header0 state3_def session0_def token0_def splice1_def)

end
